theory Spec2Isabelle
  imports Complex_Main "HOL-Library.Finite_Map"
begin

section \<open>The todo server of week-2/02-nodejs/todoServer.js\<close>

text \<open>
  The server keeps a list of todo items in the file \<^verbatim>\<open>todos.json\<close> and serves it
  through five Express routes and a catch-all, behind the middleware
  \<^verbatim>\<open>express.json()\<close>. Every handler is synchronous (\<^verbatim>\<open>readFileSync\<close>,
  \<^verbatim>\<open>writeFileSync\<close>), so a request is handled in one uninterrupted step: the model is
  a function from a request, the outcome of the two calls the program does not control
  (\<^verbatim>\<open>uuidV4()\<close> and \<^verbatim>\<open>fs.writeFileSync\<close>) and the state of the world to a reply
  and the new state of the world.
\<close>

subsection \<open>Numbers\<close>

text \<open>
  A number of JavaScript is an IEEE-754 double. \<^verbatim>\<open>JSON.parse\<close> rounds the exact value
  of a literal to the nearest double, ties to the even significand; a value of magnitude
  \<open>2^1024 - 2^970\<close> or more becomes an infinity, and a value too small becomes zero.
  \<open>pow b e\<close> is the power of \<open>b\<close> with an integer exponent, \<open>digits b n\<close> the
  number of digits of a positive \<open>n\<close> to the base \<open>b\<close>, \<open>ilog b q\<close> the
  integer part of the logarithm of a positive \<open>q\<close> to the base \<open>b\<close>, and
  \<open>nearest q\<close> the value of the double nearest to \<open>q\<close>, a multiple of the unit in the
  last of its 53 binary places. The sign of zero is not modelled: \<^verbatim>\<open>-0\<close> is falsy
  and is written \<^verbatim>\<open>0\<close>, as zero is.
\<close>

definition pow :: "nat \<Rightarrow> int \<Rightarrow> rat" where
  "pow b e = (if 0 \<le> e then of_nat b ^ nat e else 1 / of_nat b ^ nat (- e))"

function digits :: "int \<Rightarrow> int \<Rightarrow> int" where
  "digits b n = (if n \<le> 0 \<or> b \<le> 1 then 0 else 1 + digits b (n div b))"
  by pat_completeness auto
termination
proof (relation "measure (\<lambda>(b, n). nat n)")
  show "wf (measure (\<lambda>(b, n). nat n))" by simp
next
  fix b n :: int
  assume "\<not> (n \<le> 0 \<or> b \<le> 1)"
  then have "0 < n" and "1 < b" by simp_all
  then have "n div b < n" by (rule int_div_less_self)
  with \<open>0 < n\<close> show "((b, n div b), (b, n)) \<in> measure (\<lambda>(b, n). nat n)" by simp
qed

definition ilog :: "nat \<Rightarrow> rat \<Rightarrow> int" where
  "ilog b q =
     (case quotient_of q of (n, d) \<Rightarrow>
        let e = digits (int b) n - digits (int b) d
        in if pow b e \<le> q then e else e - 1)"

definition round_even :: "rat \<Rightarrow> int" where
  "round_even q =
     (let f = \<lfloor>q\<rfloor>; r = q - of_int f
      in if r < 1 / 2 then f else if 1 / 2 < r then f + 1 else if even f then f else f + 1)"

definition ulp :: "rat \<Rightarrow> rat" where
  "ulp q = pow 2 (max (ilog 2 \<bar>q\<bar>) (- 1022) - 52)"

definition nearest :: "rat \<Rightarrow> rat" where
  "nearest q = (if q = 0 then 0 else sgn q * of_int (round_even (\<bar>q\<bar> / ulp q)) * ulp q)"

definition is_double :: "rat \<Rightarrow> bool" where
  "is_double q = (\<bar>q\<bar> \<le> 2 ^ 1024 - 2 ^ 971 \<and> nearest q = q)"

typedef double = "{q. is_double q}"
  morphisms value_of double_of
proof
  show "0 \<in> {q. is_double q}" by (simp add: is_double_def nearest_def)
qed

instantiation double :: equal
begin

definition equal_double :: "double \<Rightarrow> double \<Rightarrow> bool" where
  "equal_double a b = (value_of a = value_of b)"

instance
  by standard (simp add: equal_double_def value_of_inject)

end

datatype number = Finite double | PosInfinity | NegInfinity

definition to_number :: "rat \<Rightarrow> number" where
  "to_number q =
     (if 2 ^ 1024 - 2 ^ 970 \<le> \<bar>q\<bar> then (if 0 < q then PosInfinity else NegInfinity)
      else Finite (double_of (nearest q)))"

text \<open>
  \<^verbatim>\<open>JSON.stringify\<close> writes a finite number with the fewest decimal digits that read
  back as the same double and, of the literals with that many digits, the one nearest
  to it. \<open>candidates x k\<close> are the two literals of \<open>k\<close> digits next to a positive
  \<open>x\<close>, the nearer first (of two equally near, the one with the even last digit).
  Seventeen digits always suffice.
\<close>

definition candidates :: "rat \<Rightarrow> nat \<Rightarrow> rat list" where
  "candidates x k =
     (let p = ilog 10 x - (int k - 1); t = x / pow 10 p; lo = \<lfloor>t\<rfloor>;
          below = of_int lo * pow 10 p; above = of_int (lo + 1) * pow 10 p
      in if t - of_int lo < of_int (lo + 1) - t then [below, above]
         else if of_int (lo + 1) - t < t - of_int lo then [above, below]
         else if even lo then [below, above] else [above, below])"

definition shortest :: "double \<Rightarrow> rat" where
  "shortest d =
     (let x = value_of d
      in if x = 0 then 0
         else (case find (\<lambda>c. to_number (sgn x * c) = Finite d)
                      (concat (map (candidates \<bar>x\<bar>) [1..<18])) of
                 Some c \<Rightarrow> sgn x * c
               | None \<Rightarrow> x))"


subsection \<open>Values\<close>

text \<open>
  \<open>json\<close> is a JSON document: what the text of the file, of a request body or of a
  reply body denotes. A number is the exact value of its literal. An object is the finite
  map from its property names to their values: a text that repeats a name denotes the
  object with the last value given for it, which is the one \<^verbatim>\<open>JSON.parse\<close> keeps, and
  the order of the properties in the text is not part of the model.
\<close>

datatype json =
    JNull
  | JBool bool
  | JNum rat
  | JStr string
  | JArr "json list"
  | JObj "(string, json) fmap"

text \<open>
  \<open>jsval\<close> is a value in the memory of the program. It differs from \<open>json\<close> by
  \<^verbatim>\<open>undefined\<close>, which a property read yields for a missing property and which
  \<^verbatim>\<open>JSON.stringify\<close> does not write, and by its numbers, which are doubles or
  infinite. \<^verbatim>\<open>NaN\<close> is left out: \<^verbatim>\<open>JSON.parse\<close> never yields it and the program
  does no arithmetic.
\<close>

datatype jsval =
    Undefined
  | Null
  | Bool bool
  | Num number
  | Str string
  | Arr "jsval list"
  | Obj "(string, jsval) fmap"

text \<open>\<^verbatim>\<open>JSON.parse\<close>, on the document that the text of the file or of the body denotes.\<close>

primrec JSON_parse :: "json \<Rightarrow> jsval" where
  "JSON_parse JNull = Null"
| "JSON_parse (JBool b) = Bool b"
| "JSON_parse (JNum q) = Num (to_number q)"
| "JSON_parse (JStr s) = Str s"
| "JSON_parse (JArr xs) = Arr (map JSON_parse xs)"
| "JSON_parse (JObj m) = Obj (fmmap JSON_parse m)"

text \<open>
  \<^verbatim>\<open>JSON.stringify\<close>: an infinite number is written as \<^verbatim>\<open>null\<close>; inside an array
  \<^verbatim>\<open>undefined\<close> is written as \<^verbatim>\<open>null\<close>; a property whose value is \<^verbatim>\<open>undefined\<close>
  is left out; and at the top \<^verbatim>\<open>JSON.stringify(undefined)\<close> is \<^verbatim>\<open>undefined\<close>, not a
  text.
\<close>

primrec write_number :: "number \<Rightarrow> json" where
  "write_number (Finite d) = JNum (shortest d)"
| "write_number PosInfinity = JNull"
| "write_number NegInfinity = JNull"

primrec serialize :: "jsval \<Rightarrow> json" where
  "serialize Undefined = JNull"
| "serialize Null = JNull"
| "serialize (Bool b) = JBool b"
| "serialize (Num n) = write_number n"
| "serialize (Str s) = JStr s"
| "serialize (Arr xs) = JArr (map serialize xs)"
| "serialize (Obj m) =
     JObj (fmfilter (\<lambda>k. fmlookup m k \<noteq> Some Undefined) (fmmap serialize m))"

definition JSON_stringify :: "jsval \<Rightarrow> json option" where
  "JSON_stringify v = (if v = Undefined then None else Some (serialize v))"

text \<open>
  \<^verbatim>\<open>v.k\<close>, for the property names the server reads (\<^verbatim>\<open>id\<close>, \<^verbatim>\<open>title\<close>,
  \<^verbatim>\<open>description\<close>, \<^verbatim>\<open>completed\<close>; none of them is inherited from a prototype).
  Reading a property of \<^verbatim>\<open>undefined\<close> or \<^verbatim>\<open>null\<close> throws a TypeError; a boolean, a
  number, a string and an array have no such property.
\<close>

datatype error = FileMissing | ReadFailed | SyntaxError | WriteFailed | TypeError
  | BadBody | BadPath

fun get_prop :: "jsval \<Rightarrow> string \<Rightarrow> error + jsval" where
  "get_prop Undefined k = Inl TypeError"
| "get_prop Null k = Inl TypeError"
| "get_prop (Obj m) k = Inr (case fmlookup m k of None \<Rightarrow> Undefined | Some v \<Rightarrow> v)"
| "get_prop v k = Inr Undefined"

text \<open>
  \<^verbatim>\<open>o.k = v\<close> on an object. The server assigns only to an object that \<^verbatim>\<open>find\<close>
  returned for its \<^verbatim>\<open>id\<close>, so the last equation is never used; an assignment to a
  primitive value is ignored in non-strict code.
\<close>

fun set_prop :: "jsval \<Rightarrow> string \<Rightarrow> jsval \<Rightarrow> jsval" where
  "set_prop (Obj m) k v = Obj (fmupd k v m)"
| "set_prop t k v = t"

text \<open>Truthiness, and \<^verbatim>\<open>a || b\<close>. Zero is the one falsy number, an infinity is truthy.\<close>

fun truthy :: "jsval \<Rightarrow> bool" where
  "truthy Undefined = False"
| "truthy Null = False"
| "truthy (Bool b) = b"
| "truthy (Num n) = (n \<noteq> Finite (double_of 0))"
| "truthy (Str s) = (s \<noteq> [])"
| "truthy (Arr xs) = True"
| "truthy (Obj m) = True"

definition js_or :: "jsval \<Rightarrow> jsval \<Rightarrow> jsval" where
  "js_or a b = (if truthy a then a else b)"


subsection \<open>The world: the file and the console\<close>

text \<open>
  The file \<^verbatim>\<open>todos.json\<close> is modelled by what \<^verbatim>\<open>readFileSync\<close> and \<^verbatim>\<open>JSON.parse\<close>
  make of it: it is missing, it cannot be read, its text is not JSON, or its text is the
  JSON document \<open>j\<close>. The console is the list of the errors the program has logged.
\<close>

datatype file_state = Missing | Unreadable | Unparsable | Holds json

record world =
  todos_json :: file_state
  console :: "error list"

text \<open>
  What the program does not decide while it handles one request: the token that
  \<^verbatim>\<open>uuidV4()\<close> returns, and whether \<^verbatim>\<open>fs.writeFileSync\<close> writes the file, fails and
  leaves the file as it was, or fails after it has truncated the file (a proper prefix of
  the text of a JSON array is not JSON).
\<close>

datatype write_outcome = Written | Refused | Torn

record env =
  uuidV4 :: string
  writeFileSync :: write_outcome

definition console_log :: "error \<Rightarrow> world \<Rightarrow> world" where
  "console_log err w = w\<lparr>console := console w @ [err]\<rparr>"

text \<open>\<^verbatim>\<open>JSON.parse(fs.readFileSync('todos.json'))\<close>, with the exception either call throws.\<close>

fun read_todos_json :: "file_state \<Rightarrow> error + jsval" where
  "read_todos_json Missing = Inl FileMissing"
| "read_todos_json Unreadable = Inl ReadFailed"
| "read_todos_json Unparsable = Inl SyntaxError"
| "read_todos_json (Holds j) = Inr (JSON_parse j)"

definition getTodosFromFile :: "world \<Rightarrow> jsval \<times> world" where
  "getTodosFromFile w =
     (case read_todos_json (todos_json w) of
        Inr todos \<Rightarrow> (todos, w)
      | Inl err \<Rightarrow> (Arr [], console_log err w))"

text \<open>
  \<^verbatim>\<open>fs.writeFileSync('todos.json', JSON.stringify(todos))\<close> inside \<^verbatim>\<open>try\<close>:
  \<^verbatim>\<open>writeFileSync\<close> throws a TypeError when it is given \<^verbatim>\<open>undefined\<close> to write.
\<close>

definition saveTodoToFile :: "jsval \<Rightarrow> write_outcome \<Rightarrow> world \<Rightarrow> bool \<times> world" where
  "saveTodoToFile todos outcome w =
     (case JSON_stringify todos of
        None \<Rightarrow> (False, console_log TypeError w)
      | Some j \<Rightarrow>
          (case outcome of
             Written \<Rightarrow> (True, w\<lparr>todos_json := Holds j\<rparr>)
           | Refused \<Rightarrow> (False, console_log WriteFailed w)
           | Torn \<Rightarrow> (False, console_log WriteFailed (w\<lparr>todos_json := Unparsable\<rparr>))))"

subsection \<open>Replies\<close>


datatype content = Empty | Json json

record response =
  status :: nat
  content :: content

type_synonym reply = "error + response"

definition res_send :: "nat \<Rightarrow> response" where
  "res_send c = \<lparr>status = c, content = Empty\<rparr>"

definition res_json :: "nat \<Rightarrow> jsval \<Rightarrow> response" where
  "res_json c v =
     \<lparr>status = c, content = (case JSON_stringify v of None \<Rightarrow> Empty | Some j \<Rightarrow> Json j)\<rparr>"

definition todo_not_found :: response where
  "todo_not_found = res_json 404 (Obj (fmap_of_list [(''message'', Str ''Todo not found'')]))"

definition failed_to_save :: response where
  "failed_to_save = res_json 500 (Obj (fmap_of_list [(''message'', Str ''Failed to save todo'')]))"

definition todo_deleted :: response where
  "todo_deleted = res_json 200 (Obj (fmap_of_list [(''message'', Str ''Todo deleted'')]))"

subsection \<open>Array operations the handlers use\<close>

text \<open>
  \<^verbatim>\<open>todos.find(t => t.id === req.params.id)\<close> on the elements of an array, from the
  left. The result is the place of the first element whose \<^verbatim>\<open>id\<close> is the string
  \<open>i\<close>, with the element: the place stands for the reference that \<^verbatim>\<open>find\<close> returns.
  The callback throws on an element that is \<^verbatim>\<open>null\<close>.
\<close>

fun find_todo :: "jsval list \<Rightarrow> string \<Rightarrow> error + (nat \<times> jsval) option" where
  "find_todo [] i = Inr None"
| "find_todo (t # ts) i =
     (case get_prop t ''id'' of
        Inl err \<Rightarrow> Inl err
      | Inr v \<Rightarrow>
          if v = Str i then Inr (Some (0, t))
          else (case find_todo ts i of
                  Inl err \<Rightarrow> Inl err
                | Inr None \<Rightarrow> Inr None
                | Inr (Some (n, t')) \<Rightarrow> Inr (Some (Suc n, t'))))"

text \<open>
  \<^verbatim>\<open>todos.find\<close> and \<^verbatim>\<open>todos.push\<close> exist only when the file held an array: on any
  other value the call throws a TypeError.
\<close>

fun todos_find :: "jsval \<Rightarrow> string \<Rightarrow> error + (nat \<times> jsval) option" where
  "todos_find (Arr ts) i = find_todo ts i"
| "todos_find v i = Inl TypeError"

fun todos_push :: "jsval \<Rightarrow> jsval \<Rightarrow> error + jsval" where
  "todos_push (Arr ts) t = Inr (Arr (ts @ [t]))"
| "todos_push v t = Inl TypeError"

text \<open>
  The array after the object at place \<open>n\<close> has been changed into \<open>t\<close>: the handler
  changes the object through the reference \<^verbatim>\<open>find\<close> returned, and no other element
  of an array that \<^verbatim>\<open>JSON.parse\<close> built is the same object.
\<close>

fun todos_changed :: "jsval \<Rightarrow> nat \<Rightarrow> jsval \<Rightarrow> jsval" where
  "todos_changed (Arr ts) n t = Arr (ts[n := t])"
| "todos_changed v n t = v"

text \<open>
  \<^verbatim>\<open>todos.splice(todos.indexOf(todo), 1)\<close>, where \<^verbatim>\<open>indexOf\<close> returns the place \<open>n\<close>
  of the object that \<^verbatim>\<open>find\<close> returned.
\<close>

fun todos_splice :: "jsval \<Rightarrow> nat \<Rightarrow> jsval" where
  "todos_splice (Arr ts) n = Arr (take n ts @ drop (Suc n) ts)"
| "todos_splice v n = v"

subsection \<open>The handlers\<close>

text \<open>\<^verbatim>\<open>app.get('/todos')\<close>\<close>

definition get_todos :: "world \<Rightarrow> reply \<times> world" where
  "get_todos w =
     (case getTodosFromFile w of (todos, w1) \<Rightarrow> (Inr (res_json 200 todos), w1))"

text \<open>\<^verbatim>\<open>app.get('/todos/:id')\<close>\<close>

definition get_todos_id :: "string \<Rightarrow> world \<Rightarrow> reply \<times> world" where
  "get_todos_id i w =
     (case getTodosFromFile w of (todos, w1) \<Rightarrow>
        (case todos_find todos i of
           Inl err \<Rightarrow> (Inl err, w1)
         | Inr None \<Rightarrow> (Inr todo_not_found, w1)
         | Inr (Some (n, todo)) \<Rightarrow> (Inr (res_json 200 todo), w1)))"

text \<open>
  \<^verbatim>\<open>app.post('/todos')\<close>. The object literal reads the three properties of the body
  in turn; \<open>body\<close> is \<^verbatim>\<open>req.body\<close>.
\<close>

definition newTodo :: "string \<Rightarrow> jsval \<Rightarrow> error + jsval" where
  "newTodo u body =
     (case get_prop body ''title'' of
        Inl err \<Rightarrow> Inl err
      | Inr title \<Rightarrow>
     (case get_prop body ''description'' of
        Inl err \<Rightarrow> Inl err
      | Inr description \<Rightarrow>
     (case get_prop body ''completed'' of
        Inl err \<Rightarrow> Inl err
      | Inr completed \<Rightarrow>
          Inr (Obj (fmap_of_list
                 [(''id'', Str u), (''title'', title), (''description'', description),
                  (''completed'', js_or completed (Bool False))])))))"

definition post_todos :: "json \<Rightarrow> env \<Rightarrow> world \<Rightarrow> reply \<times> world" where
  "post_todos body e w =
     (case newTodo (uuidV4 e) (JSON_parse body) of
        Inl err \<Rightarrow> (Inl err, w)
      | Inr new \<Rightarrow>
          (case getTodosFromFile w of (todos, w1) \<Rightarrow>
             (case todos_push todos new of
                Inl err \<Rightarrow> (Inl err, w1)
              | Inr todos' \<Rightarrow>
                  (case saveTodoToFile todos' (writeFileSync e) w1 of (ok, w2) \<Rightarrow>
                     if \<not> ok then (Inr failed_to_save, w2)
                     else (case get_prop new ''id'' of
                             Inl err \<Rightarrow> (Inl err, w2)
                           | Inr i \<Rightarrow> (Inr (res_json 201 (Obj (fmap_of_list [(''id'', i)]))), w2))))))"

text \<open>\<^verbatim>\<open>app.put('/todos/:id')\<close>: the three assignments to the object that was found.\<close>

definition assign_todo :: "jsval \<Rightarrow> jsval \<Rightarrow> error + jsval" where
  "assign_todo todo body =
     (case get_prop body ''title'' of
        Inl err \<Rightarrow> Inl err
      | Inr title \<Rightarrow>
     (case get_prop body ''description'' of
        Inl err \<Rightarrow> Inl err
      | Inr description \<Rightarrow>
     (case get_prop body ''completed'' of
        Inl err \<Rightarrow> Inl err
      | Inr completed \<Rightarrow>
          Inr (set_prop (set_prop (set_prop todo ''title'' title) ''description'' description)
                 ''completed'' (js_or completed (Bool False))))))"

definition put_todos_id :: "string \<Rightarrow> json \<Rightarrow> env \<Rightarrow> world \<Rightarrow> reply \<times> world" where
  "put_todos_id i body e w =
     (case getTodosFromFile w of (todos, w1) \<Rightarrow>
        (case todos_find todos i of
           Inl err \<Rightarrow> (Inl err, w1)
         | Inr None \<Rightarrow> (Inr todo_not_found, w1)
         | Inr (Some (n, todo)) \<Rightarrow>
             (case assign_todo todo (JSON_parse body) of
                Inl err \<Rightarrow> (Inl err, w1)
              | Inr todo' \<Rightarrow>
                  (case saveTodoToFile (todos_changed todos n todo') (writeFileSync e) w1 of
                     (ok, w2) \<Rightarrow>
                       if \<not> ok then (Inr failed_to_save, w2)
                       else (Inr (res_json 200 todo'), w2)))))"

text \<open>\<^verbatim>\<open>app.delete('/todos/:id')\<close>\<close>

definition delete_todos_id :: "string \<Rightarrow> env \<Rightarrow> world \<Rightarrow> reply \<times> world" where
  "delete_todos_id i e w =
     (case getTodosFromFile w of (todos, w1) \<Rightarrow>
        (case todos_find todos i of
           Inl err \<Rightarrow> (Inl err, w1)
         | Inr None \<Rightarrow> (Inr todo_not_found, w1)
         | Inr (Some (n, todo)) \<Rightarrow>
             (case saveTodoToFile (todos_splice todos n) (writeFileSync e) w1 of
                (ok, w2) \<Rightarrow>
                  if \<not> ok then (Inr failed_to_save, w2)
                  else (Inr todo_deleted, w2))))"

text \<open>\<^verbatim>\<open>app.all("**")\<close>\<close>

definition all_other :: "world \<Rightarrow> reply \<times> world" where
  "all_other w = (Inr (res_send 404), w)"

subsection \<open>Routing\<close>

text \<open>
  \<^verbatim>\<open>app.use(express.json())\<close> runs before every route. It leaves \<^verbatim>\<open>req.body\<close> the
  empty object when the request has no JSON body, and the parsed document when the body
  is the text of an object or of an array; any other body, JSON or not, it rejects, and
  Express answers 400 without running a route.
\<close>

datatype payload = NoBody | NotJson | Document json

fun express_json :: "payload \<Rightarrow> error + json" where
  "express_json NoBody = Inr (JObj fmempty)"
| "express_json NotJson = Inl BadBody"
| "express_json (Document (JObj m)) = Inr (JObj m)"
| "express_json (Document (JArr xs)) = Inr (JArr xs)"
| "express_json (Document j) = Inl BadBody"

text \<open>
  A request path is given by what the matcher of Express makes of it against the
  patterns the server registers: \<open>Todos\<close> matches \<^verbatim>\<open>'/todos'\<close>, \<open>Todo i\<close> matches
  \<^verbatim>\<open>'/todos/:id'\<close> with \<^verbatim>\<open>req.params.id\<close> the string \<open>i\<close>, \<open>Elsewhere\<close> matches
  only the third pattern, \<^verbatim>\<open>"**"\<close>, which matches every path, and \<open>Undecodable\<close> is
  a path with a malformed escape in the part a pattern captures, which Express answers
  400 whatever the method.
\<close>

datatype http_method = GET | HEAD | POST | PUT | DELETE | PATCH | OPTIONS | OtherMethod

datatype path = Todos | Todo string | Elsewhere | Undecodable

record request =
  req_method :: http_method
  req_path :: path
  req_body :: payload

text \<open>
  The routes in the order of their registration; the first that matches answers. A
  route that \<^verbatim>\<open>app.get\<close> registers also answers a HEAD request for its path: Express
  runs the GET handler of a route that has no handler for HEAD, and these routes come
  before the catch-all. \<open>OtherMethod\<close> stands for every method not named here.
\<close>

datatype operation =
  ListTodos | GetTodo string | CreateTodo | UpdateTodo string | DeleteTodo string | NoRoute

fun route :: "http_method \<Rightarrow> path \<Rightarrow> operation" where
  "route GET Todos = ListTodos"
| "route HEAD Todos = ListTodos"
| "route GET (Todo i) = GetTodo i"
| "route HEAD (Todo i) = GetTodo i"
| "route POST Todos = CreateTodo"
| "route PUT (Todo i) = UpdateTodo i"
| "route DELETE (Todo i) = DeleteTodo i"
| "route m p = NoRoute"

definition run_route :: "operation \<Rightarrow> json \<Rightarrow> env \<Rightarrow> world \<Rightarrow> reply \<times> world" where
  "run_route op body e w =
     (case op of
        ListTodos \<Rightarrow> get_todos w
      | GetTodo i \<Rightarrow> get_todos_id i w
      | CreateTodo \<Rightarrow> post_todos body e w
      | UpdateTodo i \<Rightarrow> put_todos_id i body e w
      | DeleteTodo i \<Rightarrow> delete_todos_id i e w
      | NoRoute \<Rightarrow> all_other w)"

text \<open>The response to a HEAD request goes out without the body the handler sent.\<close>

fun on_the_wire :: "http_method \<Rightarrow> reply \<Rightarrow> reply" where
  "on_the_wire HEAD (Inr r) = Inr (r\<lparr>content := Empty\<rparr>)"
| "on_the_wire m rep = rep"

definition handle :: "request \<Rightarrow> env \<Rightarrow> world \<Rightarrow> reply \<times> world" where
  "handle req e w =
     (case express_json (req_body req) of
        Inl err \<Rightarrow> (Inl err, w)
      | Inr body \<Rightarrow>
          if req_path req = Undecodable then (Inl BadPath, w)
          else (case run_route (route (req_method req) (req_path req)) body e w of
                  (rep, w') \<Rightarrow> (on_the_wire (req_method req) rep, w')))"


subsection \<open>Notions the properties are stated with\<close>

text \<open>
  A value that \<^verbatim>\<open>JSON.stringify\<close> writes in full: one without \<^verbatim>\<open>undefined\<close> and
  without an infinite number in it.
\<close>

primrec finite_number :: "number \<Rightarrow> bool" where
  "finite_number (Finite d) = True"
| "finite_number PosInfinity = False"
| "finite_number NegInfinity = False"

primrec defined :: "jsval \<Rightarrow> bool" where
  "defined Undefined = False"
| "defined Null = True"
| "defined (Bool b) = True"
| "defined (Num n) = finite_number n"
| "defined (Str s) = True"
| "defined (Arr xs) = (\<forall>b \<in> set (map defined xs). b)"
| "defined (Obj m) = (\<forall>b \<in> fmran' (fmmap defined m). b)"

text \<open>The property \<open>k\<close> of a JSON document: \<open>None\<close> when it has none.\<close>

fun jprop :: "json \<Rightarrow> string \<Rightarrow> json option" where
  "jprop (JObj m) k = fmlookup m k"
| "jprop j k = None"

text \<open>What reading the property \<open>k\<close> of the parsed document \<open>j\<close> yields.\<close>

definition parsed_prop :: "json \<Rightarrow> string \<Rightarrow> jsval" where
  "parsed_prop j k = (case jprop j k of None \<Rightarrow> Undefined | Some v \<Rightarrow> JSON_parse v)"

text \<open>
  What the server makes of a document that it parses and writes again: the document
  itself, but for its numbers, which come back as the doubles they were rounded to,
  \<^verbatim>\<open>null\<close> for those that overflowed. A document without a number comes back as it is.
\<close>

definition render :: "json \<Rightarrow> json" where
  "render j = serialize (JSON_parse j)"

primrec number_free :: "json \<Rightarrow> bool" where
  "number_free JNull = True"
| "number_free (JBool b) = True"
| "number_free (JNum q) = False"
| "number_free (JStr s) = True"
| "number_free (JArr xs) = (\<forall>b \<in> set (map number_free xs). b)"
| "number_free (JObj m) = (\<forall>b \<in> fmran' (fmmap number_free m). b)"

text \<open>
  The rule of the data model for \<^verbatim>\<open>completed\<close>, in the words of the specification:
  the value the client supplied, and \<^verbatim>\<open>false\<close> when it is omitted or falsy. A document
  is falsy when the value the server reads from it is: \<^verbatim>\<open>null\<close>, \<^verbatim>\<open>false\<close>, the empty
  string, and a number that is or rounds to zero.
\<close>

definition falsy :: "json \<Rightarrow> bool" where
  "falsy j = (\<not> truthy (JSON_parse j))"

definition completed_or_false :: "json option \<Rightarrow> json" where
  "completed_or_false c =
     (case c of None \<Rightarrow> JBool False | Some j \<Rightarrow> if falsy j then JBool False else render j)"


text \<open>
  A document is settled when the server renders it as it is. Every document that the
  server wrote is settled, and so is every document without a number.
\<close>

definition settled :: "json \<Rightarrow> bool" where
  "settled j = (render j = j)"


text \<open>
  The records of the file, and the invariant of the data model: every record of the
  persisted list has an id, a string, and no two records have the same. \<open>id_of\<close> is
  the id of a record, \<open>None\<close> for a value that has no string as its \<^verbatim>\<open>id\<close>.
\<close>

definition records :: "file_state \<Rightarrow> json list" where
  "records f = (case f of Holds (JArr js) \<Rightarrow> js | _ \<Rightarrow> [])"

fun id_of :: "json \<Rightarrow> string option" where
  "id_of (JObj m) = (case fmlookup m ''id'' of Some (JStr s) \<Rightarrow> Some s | _ \<Rightarrow> None)"
| "id_of j = None"

definition stored_ids :: "file_state \<Rightarrow> string option list" where
  "stored_ids f = map id_of (records f)"

definition unique_ids :: "file_state \<Rightarrow> bool" where
  "unique_ids f =
     (list_all (\<lambda>t. id_of t \<noteq> None) (records f) \<and> distinct (map id_of (records f)))"

text \<open>
  A run of the server: the requests it handles one after the other, each with what
  \<^verbatim>\<open>uuidV4\<close> and \<^verbatim>\<open>writeFileSync\<close> do while it is handled. \<open>tokens\<close> are the
  tokens \<^verbatim>\<open>uuidV4\<close> returned to the creates of the run, \<open>created\<close> the ids the run
  handed out in its 201 replies.
\<close>

fun run :: "(request \<times> env) list \<Rightarrow> world \<Rightarrow> world" where
  "run [] w = w"
| "run ((req, e) # rest) w = run rest (snd (handle req e w))"

definition is_create :: "request \<Rightarrow> bool" where
  "is_create req =
     (express_json (req_body req) \<noteq> Inl BadBody
      \<and> route (req_method req) (req_path req) = CreateTodo)"

definition tokens :: "(request \<times> env) list \<Rightarrow> string list" where
  "tokens steps = map (\<lambda>(req, e). uuidV4 e) (filter (\<lambda>(req, e). is_create req) steps)"

fun created_id :: "reply \<Rightarrow> string option" where
  "created_id (Inl err) = None"
| "created_id (Inr r) =
     (if status r = 201
      then (case content r of Json j \<Rightarrow> id_of j | Empty \<Rightarrow> None)
      else None)"

fun created :: "(request \<times> env) list \<Rightarrow> world \<Rightarrow> string list" where
  "created [] w = []"
| "created ((req, e) # rest) w =
     (case created_id (fst (handle req e w)) of None \<Rightarrow> [] | Some u \<Rightarrow> [u])
       @ created rest (snd (handle req e w))"

text \<open>
  Modelled from the spec: the package \<^verbatim>\<open>uuid\<close> is not among the sources. The
  specification says of the token that \<^verbatim>\<open>uuidV4()\<close> returns that it is universally
  unique and never reused: in a run, the tokens returned to the creates are pairwise
  different, and none of them is an id the file held when the run started.
\<close>

definition universally_unique :: "(request \<times> env) list \<Rightarrow> world \<Rightarrow> bool" where
  "universally_unique steps w =
     (distinct (tokens steps)
      \<and> set (map Some (tokens steps)) \<inter> set (stored_ids (todos_json w)) = {})"


text \<open>Worlds, requests and values the examples use.\<close>

definition no_file :: world where
  "no_file = \<lparr>todos_json = Missing, console = []\<rparr>"

definition disk_works :: env where
  "disk_works = \<lparr>uuidV4 = ''a1'', writeFileSync = Written\<rparr>"

definition second_token :: env where
  "second_token = \<lparr>uuidV4 = ''b2'', writeFileSync = Written\<rparr>"

definition groceries :: jsval where
  "groceries =
     Obj (fmap_of_list
       [(''id'', Str ''a1''), (''title'', Str ''Buy groceries''),
        (''description'', Str ''I should buy groceries''), (''completed'', Bool True)])"

definition groceries_open :: json where
  "groceries_open =
     JObj (fmap_of_list
       [(''id'', JStr ''a1''), (''title'', JStr ''Buy groceries''),
        (''description'', JStr ''I should buy groceries''), (''completed'', JBool False)])"

definition milk :: json where
  "milk = JObj (fmap_of_list
            [(''id'', JStr ''a1''), (''title'', JStr ''Buy milk''), (''completed'', JBool False)])"

definition laundry :: json where
  "laundry = JObj (fmap_of_list
               [(''id'', JStr ''b2''), (''title'', JStr ''Laundry''), (''completed'', JBool True)])"

definition laundry_again :: json where
  "laundry_again = JObj (fmap_of_list [(''id'', JStr ''b2''), (''title'', JStr ''Again'')])"

definition groceries_stored :: world where
  "groceries_stored = \<lparr>todos_json = Holds (JArr [groceries_open]), console = [FileMissing]\<rparr>"

definition two_stored :: world where
  "two_stored = \<lparr>todos_json = Holds (JArr [serialize groceries, laundry]), console = []\<rparr>"

definition null_stored :: world where
  "null_stored = \<lparr>todos_json = Holds (JArr [JNull]), console = []\<rparr>"

definition twins_stored :: world where
  "twins_stored = \<lparr>todos_json = Holds (JArr [laundry, laundry_again]), console = []\<rparr>"





definition post_groceries :: request where
  "post_groceries =
     \<lparr>req_method = POST, req_path = Todos,
      req_body = Document (JObj (fmap_of_list
                   [(''title'', JStr ''Buy groceries''),
                    (''description'', JStr ''I should buy groceries'')]))\<rparr>"

definition post_huge :: request where
  "post_huge =
     \<lparr>req_method = POST, req_path = Todos,
      req_body = Document (JObj (fmap_of_list [(''title'', JNum (10 ^ 309))]))\<rparr>"

definition post_with_id :: request where
  "post_with_id =
     \<lparr>req_method = POST, req_path = Todos,
      req_body = Document (JObj (fmap_of_list
                   [(''id'', JStr ''a1''), (''title'', JStr ''Buy milk'')]))\<rparr>"

definition get_a1 :: request where
  "get_a1 = \<lparr>req_method = GET, req_path = Todo ''a1'', req_body = NoBody\<rparr>"

definition get_b2 :: request where
  "get_b2 = \<lparr>req_method = GET, req_path = Todo ''b2'', req_body = NoBody\<rparr>"

definition put_a1 :: request where
  "put_a1 = \<lparr>req_method = PUT, req_path = Todo ''a1'',
             req_body = Document (JObj (fmap_of_list [(''title'', JStr ''Buy milk'')]))\<rparr>"

definition delete_a1 :: request where
  "delete_a1 = \<lparr>req_method = DELETE, req_path = Todo ''a1'', req_body = NoBody\<rparr>"

definition delete_b2 :: request where
  "delete_b2 = \<lparr>req_method = DELETE, req_path = Todo ''b2'', req_body = NoBody\<rparr>"

definition three_steps :: "(request \<times> env) list" where
  "three_steps =
     [(post_groceries, disk_works), (post_with_id, second_token), (delete_a1, disk_works)]"

definition post_groceries_body :: json where
  "post_groceries_body =
     JObj (fmap_of_list
       [(''title'', JStr ''Buy groceries''), (''description'', JStr ''I should buy groceries'')])"

definition post_huge_body :: json where
  "post_huge_body = JObj (fmap_of_list [(''title'', JNum (10 ^ 309))])"

definition huge_stored :: world where
  "huge_stored =
     \<lparr>todos_json = Holds (JArr [JObj (fmap_of_list
                      [(''id'', JStr ''a1''), (''title'', JNull), (''completed'', JBool False)])]),
      console = [FileMissing]\<rparr>"

definition null_and_groceries :: world where
  "null_and_groceries =
     \<lparr>todos_json = Holds (JArr [JNull, groceries_open]), console = []\<rparr>"


definition overflowing :: json where
  "overflowing = JObj (fmap_of_list [(''id'', JStr ''a1''), (''title'', JNum (10 ^ 309))])"

definition overflowed :: json where
  "overflowed = JObj (fmap_of_list [(''id'', JStr ''a1''), (''title'', JNull)])"

definition ironing :: json where
  "ironing = JObj (fmap_of_list
               [(''id'', JStr ''b2''), (''title'', JStr ''Ironing''), (''completed'', JBool True)])"

definition overflowing_stored :: world where
  "overflowing_stored = \<lparr>todos_json = Holds (JArr [overflowing, laundry]), console = []\<rparr>"


definition put_b2 :: request where
  "put_b2 = \<lparr>req_method = PUT, req_path = Todo ''b2'',
             req_body = Document (JObj (fmap_of_list
                          [(''title'', JStr ''Ironing''), (''completed'', JBool True)]))\<rparr>"


definition post_with_id_body :: json where
  "post_with_id_body = JObj (fmap_of_list [(''id'', JStr ''a1''), (''title'', JStr ''Buy milk'')])"

definition post_at_twins :: "(request \<times> env) list" where
  "post_at_twins = [(post_groceries, disk_works)]"


section \<open>Properties\<close>

subsection \<open>Serialisation\<close>

lemma JSON_parse_defined [simp]: "JSON_parse j \<noteq> Undefined"
  by (cases j) simp_all

lemma to_number_value_of [simp]: "to_number (value_of d) = Finite d"
proof -
  have "is_double (value_of d)" using value_of [of d] by simp
  then have "\<bar>value_of d\<bar> \<le> 2 ^ 1024 - 2 ^ 971" and "nearest (value_of d) = value_of d"
    by (simp_all add: is_double_def)
  moreover have "(2::rat) ^ 1024 - 2 ^ 971 < 2 ^ 1024 - 2 ^ 970" by simp
  ultimately show ?thesis by (simp add: to_number_def value_of_inverse)
qed

lemma to_number_shortest [simp]: "to_number (shortest d) = Finite d"
proof (cases "value_of d = 0")
  case True
  then have "to_number (shortest d) = to_number (value_of d)"
    by (simp add: shortest_def)
  then show ?thesis by simp
next
  case False
  show ?thesis
  proof (cases "find (\<lambda>c. to_number (sgn (value_of d) * c) = Finite d)
                  (concat (map (candidates \<bar>value_of d\<bar>) [1..<18]))")
    case None
    with False show ?thesis by (simp add: shortest_def Let_def)
  next
    case (Some c)
    then have "to_number (sgn (value_of d) * c) = Finite d"
      by (auto simp: find_Some_iff)
    with False Some show ?thesis by (simp add: shortest_def Let_def)
  qed
qed

lemma parse_write_number: "finite_number n \<Longrightarrow> JSON_parse (write_number n) = Num n"
  by (cases n) simp_all

lemma serialize_parse_write_number [simp]:
  "serialize (JSON_parse (write_number n)) = write_number n"
  by (cases n) simp_all

lemma defined_Arr [simp]: "defined (Arr xs) = (\<forall>x \<in> set xs. defined x)"
  by auto

lemma defined_Obj [simp]: "defined (Obj m) = (\<forall>x \<in> fmran' m. defined x)"
  by (auto simp: fmran'_alt_def fmlookup_ran'_iff)

lemma number_free_JArr [simp]: "number_free (JArr xs) = (\<forall>x \<in> set xs. number_free x)"
  by auto

lemma number_free_JObj [simp]: "number_free (JObj m) = (\<forall>x \<in> fmran' m. number_free x)"
  by (auto simp: fmlookup_ran'_iff)


lemma JSON_parse_serialize: "defined v \<Longrightarrow> JSON_parse (serialize v) = v"
proof (induction v)
  case (Num n)
  then show ?case by (simp add: parse_write_number)
next
  case (Arr xs)
  then show ?case by (simp add: map_idI)
next
  case (Obj m)
  have "fmmap JSON_parse (fmfilter (\<lambda>k. fmlookup m k \<noteq> Some Undefined) (fmmap serialize m)) = m"
  proof (rule fmap_ext)
    fix k
    show "fmlookup (fmmap JSON_parse
             (fmfilter (\<lambda>k. fmlookup m k \<noteq> Some Undefined) (fmmap serialize m))) k
          = fmlookup m k"
    proof (cases "fmlookup m k")
      case None
      then show ?thesis by simp
    next
      case (Some v)
      then have "v \<in> fmran' m" by (rule fmran'I)
      with Obj Some show ?thesis by auto
    qed
  qed
  then show ?case by simp
qed simp_all

lemma serialize_parse_serialize [simp]: "serialize (JSON_parse (serialize v)) = serialize v"
proof (induction v)
  case (Arr xs)
  then show ?case by simp
next
  case (Obj m)
  let ?kept = "fmfilter (\<lambda>k. fmlookup m k \<noteq> Some Undefined) (fmmap serialize m)"
  have "fmfilter (\<lambda>k. fmlookup (fmmap JSON_parse ?kept) k \<noteq> Some Undefined)
          (fmmap serialize (fmmap JSON_parse ?kept)) = ?kept"
  proof (rule fmap_ext)
    fix k
    show "fmlookup (fmfilter (\<lambda>k. fmlookup (fmmap JSON_parse ?kept) k \<noteq> Some Undefined)
             (fmmap serialize (fmmap JSON_parse ?kept))) k = fmlookup ?kept k"
    proof (cases "fmlookup m k")
      case None
      then show ?thesis by simp
    next
      case (Some v)
      then have "v \<in> fmran' m" by (rule fmran'I)
      with Obj Some show ?thesis by auto
    qed
  qed
  then show ?case by (simp only: serialize.simps JSON_parse.simps)
qed simp_all

lemma render_serialize [simp]: "render (serialize v) = serialize v"
  by (simp add: render_def)

lemma render_render [simp]: "render (render j) = render j"
  by (simp add: render_def)

lemma render_number_free: "number_free j \<Longrightarrow> render j = j"
  unfolding render_def
proof (induction j)
  case (JArr xs)
  then show ?case by (simp add: map_idI)
next
  case (JObj m)
  have "fmfilter (\<lambda>k. fmlookup (fmmap JSON_parse m) k \<noteq> Some Undefined)
          (fmmap serialize (fmmap JSON_parse m)) = m"
  proof (rule fmap_ext)
    fix k
    show "fmlookup (fmfilter (\<lambda>k. fmlookup (fmmap JSON_parse m) k \<noteq> Some Undefined)
             (fmmap serialize (fmmap JSON_parse m))) k = fmlookup m k"
    proof (cases "fmlookup m k")
      case None
      then show ?thesis by simp
    next
      case (Some v)
      then have "v \<in> fmran' m" by (rule fmran'I)
      with JObj Some show ?thesis by auto
    qed
  qed
  then show ?case by simp
qed simp_all

lemma JSON_stringify_parse [simp]: "JSON_stringify (JSON_parse j) = Some (render j)"
  by (simp add: JSON_stringify_def render_def)

subsection \<open>The store\<close>

text \<open>
  C3. After a save that reports success, a load returns what \<^verbatim>\<open>JSON.parse\<close> makes of
  the text \<^verbatim>\<open>JSON.stringify\<close> wrote for the saved array, and leaves the world alone.
  That value serialises to the same document as the saved array, and it is the saved
  array itself when no record of it holds \<^verbatim>\<open>undefined\<close> or an infinite number, as is
  the case for todo records, whose four fields are strings and a boolean.
\<close>

theorem save_then_load:
  assumes "saveTodoToFile (Arr ts) outcome w = (True, w1)"
  shows "getTodosFromFile w1 = (JSON_parse (serialize (Arr ts)), w1)
       \<and> JSON_stringify (fst (getTodosFromFile w1)) = JSON_stringify (Arr ts)
       \<and> ((\<forall>t \<in> set ts. defined t) \<longrightarrow> fst (getTodosFromFile w1) = Arr ts)"
proof -
  from assms have w1: "w1 = w\<lparr>todos_json := Holds (serialize (Arr ts))\<rparr>"
    by (cases outcome) (auto simp: saveTodoToFile_def JSON_stringify_def)
  then have load: "getTodosFromFile w1 = (JSON_parse (serialize (Arr ts)), w1)"
    by (simp add: getTodosFromFile_def)
  moreover have "JSON_stringify (JSON_parse (serialize (Arr ts))) = JSON_stringify (Arr ts)"
    using serialize_parse_serialize [of "Arr ts"] by (simp add: JSON_stringify_def)
  moreover have "JSON_parse (serialize (Arr ts)) = Arr ts" if "\<forall>t \<in> set ts. defined t"
    using that JSON_parse_serialize [of "Arr ts"] by simp
  ultimately show ?thesis by simp
qed

theorem save_then_load_witness:
  "saveTodoToFile (Arr [groceries]) Written no_file
     = (True, no_file\<lparr>todos_json := Holds (serialize (Arr [groceries]))\<rparr>)
   \<and> defined groceries
   \<and> fst (getTodosFromFile (no_file\<lparr>todos_json := Holds (serialize (Arr [groceries]))\<rparr>))
       = Arr [groceries]"
proof -
  have s: "saveTodoToFile (Arr [groceries]) Written no_file
             = (True, no_file\<lparr>todos_json := Holds (serialize (Arr [groceries]))\<rparr>)"
    by (simp add: saveTodoToFile_def JSON_stringify_def)
  have d: "defined groceries" by code_simp
  then have "\<forall>t \<in> set [groceries]. defined t" by simp
  with save_then_load [OF s]
  have "fst (getTodosFromFile (no_file\<lparr>todos_json := Holds (serialize (Arr [groceries]))\<rparr>))
          = Arr [groceries]"
    by blast
  with s d show ?thesis by (intro conjI)
qed

text \<open>
  C4. When the file is missing, cannot be read or does not hold JSON, the load returns
  the empty array; its one effect is the error it logs on the console. No exception
  leaves \<open>getTodosFromFile\<close>: its result is a value in every state of the file.
\<close>

theorem load_fails_soft:
  assumes "todos_json w = Missing \<or> todos_json w = Unreadable \<or> todos_json w = Unparsable"
  shows "\<exists>err. getTodosFromFile w = (Arr [], w\<lparr>console := console w @ [err]\<rparr>)"
  using assms by (auto simp: getTodosFromFile_def console_log_def)

theorem load_fails_soft_witness:
  "(todos_json no_file = Missing \<or> todos_json no_file = Unreadable
      \<or> todos_json no_file = Unparsable)
   \<and> getTodosFromFile no_file = (Arr [], no_file\<lparr>console := [FileMissing]\<rparr>)"
proof -
  have h: "todos_json no_file = Missing \<or> todos_json no_file = Unreadable
             \<or> todos_json no_file = Unparsable"
    by (simp add: no_file_def)
  from load_fails_soft [OF h] obtain err
    where "getTodosFromFile no_file = (Arr [], no_file\<lparr>console := console no_file @ [err]\<rparr>)" ..
  moreover have "getTodosFromFile no_file = (Arr [], no_file\<lparr>console := [FileMissing]\<rparr>)"
    by (simp add: getTodosFromFile_def console_log_def no_file_def)
  ultimately show ?thesis using h by simp
qed

subsection \<open>Facts about the parts of a handler\<close>

lemma status_simps [simp]:
  "status todo_not_found = 404" "status failed_to_save = 500" "status todo_deleted = 200"
  "status (res_json c v) = c" "status (res_send c) = c"
  by (simp_all add: todo_not_found_def failed_to_save_def todo_deleted_def res_json_def
      res_send_def)

lemma failed_to_save_eq:
  "failed_to_save
     = \<lparr>status = 500,
        content = Json (JObj (fmap_of_list [(''message'', JStr ''Failed to save todo'')]))\<rparr>"
  by code_simp

lemma todo_not_found_eq:
  "todo_not_found
     = \<lparr>status = 404,
        content = Json (JObj (fmap_of_list [(''message'', JStr ''Todo not found'')]))\<rparr>"
  by code_simp

lemma todo_deleted_eq:
  "todo_deleted
     = \<lparr>status = 200,
        content = Json (JObj (fmap_of_list [(''message'', JStr ''Todo deleted'')]))\<rparr>"
  by code_simp

lemma save_reports:
  "fst (saveTodoToFile todos outcome w) = (outcome = Written \<and> todos \<noteq> Undefined)"
  by (cases outcome) (simp_all add: saveTodoToFile_def JSON_stringify_def)

lemma save_True: "saveTodoToFile todos outcome w = (True, w') \<Longrightarrow> outcome = Written"
  using save_reports [of todos outcome w] by simp

lemma load_keeps_file [simp]: "todos_json (snd (getTodosFromFile w)) = todos_json w"
  by (simp add: getTodosFromFile_def console_log_def split: sum.splits)

lemma load_file: "getTodosFromFile w = (todos, w1) \<Longrightarrow> todos_json w1 = todos_json w"
  using load_keeps_file [of w] by simp

lemma map_render [simp]: "map (serialize \<circ> JSON_parse) js = map render js"
  by (simp add: render_def comp_def)

text \<open>A load that returns an array: the file held it, or the load failed.\<close>

lemma loaded_array:
  assumes "getTodosFromFile w = (Arr ts, w0)"
  shows "\<exists>js. ts = map JSON_parse js
           \<and> (todos_json w = Holds (JArr js) \<and> w0 = w
                \<or> js = [] \<and> (\<exists>err. read_todos_json (todos_json w) = Inl err
                                  \<and> w0 = console_log err w))"
proof (cases "todos_json w")
  case (Holds j)
  with assms show ?thesis by (cases j) (auto simp: getTodosFromFile_def)
qed (use assms in \<open>auto simp: getTodosFromFile_def\<close>)

lemma read_fails_records: "read_todos_json f = Inl err \<Longrightarrow> records f = []"
  by (cases f) (simp_all add: records_def)

lemma records_Holds [simp]: "records (Holds (JArr js)) = js"
  by (simp add: records_def)

text \<open>The request as the routes see it.\<close>

lemma express_json_accepts: "express_json p = Inr j \<Longrightarrow> j \<noteq> JNull"
  by (cases p rule: express_json.cases) auto


lemma handle_routed:
  assumes "express_json (req_body req) = Inr body" and "req_path req \<noteq> Undecodable"
  shows "handle req e w
           = (on_the_wire (req_method req)
                (fst (run_route (route (req_method req) (req_path req)) body e w)),
              snd (run_route (route (req_method req) (req_path req)) body e w))"
  using assms by (simp add: handle_def split: prod.splits)

lemma handle_answer:
  assumes "handle req e w = (Inr r, w')"
  shows "\<exists>body r0. express_json (req_body req) = Inr body \<and> req_path req \<noteq> Undecodable
           \<and> run_route (route (req_method req) (req_path req)) body e w = (Inr r0, w')
           \<and> Inr r = on_the_wire (req_method req) (Inr r0) \<and> status r = status r0"
proof -
  from assms obtain body where b: "express_json (req_body req) = Inr body"
    and p: "req_path req \<noteq> Undecodable"
    by (auto simp: handle_def split: sum.splits if_splits)
  obtain rep where rr: "run_route (route (req_method req) (req_path req)) body e w = (rep, w')"
    and wire: "Inr r = on_the_wire (req_method req) rep"
    using assms handle_routed [OF b p, of e w]
    by (cases "run_route (route (req_method req) (req_path req)) body e w") auto
  from wire obtain r0 where "rep = Inr r0" and "status r = status r0"
    by (cases "req_method req"; cases rep) auto
  with b p rr wire show ?thesis by blast
qed

lemma on_the_wire_other [simp]: "m \<noteq> HEAD \<Longrightarrow> on_the_wire m rep = rep"
  by (cases m) simp_all


subsection \<open>Routing\<close>





subsection \<open>Failure to save\<close>

lemma handle_plain:
  assumes "req_method req \<noteq> HEAD" and "express_json (req_body req) = Inr body"
      and "req_path req \<noteq> Undecodable"
  shows "handle req e w = run_route (route (req_method req) (req_path req)) body e w"
  using assms by (simp add: handle_def split: prod.splits)

lemma handle_reached:
  assumes "fst (handle req e w) = Inr r"
  shows "\<exists>body. express_json (req_body req) = Inr body \<and> req_path req \<noteq> Undecodable"
  using assms by (auto simp: handle_def split: sum.splits if_splits)

lemma post_save_fails:
  assumes "fst (post_todos body (e\<lparr>writeFileSync := Written\<rparr>) w) = Inr r"
      and "status r = 201" and "outcome \<noteq> Written"
  shows "fst (post_todos body (e\<lparr>writeFileSync := outcome\<rparr>) w) = Inr failed_to_save"
  using assms
  by (auto simp: post_todos_def split: prod.splits sum.splits option.splits if_splits
      dest: save_True)

lemma put_save_fails:
  assumes "fst (put_todos_id i body (e\<lparr>writeFileSync := Written\<rparr>) w) = Inr r"
      and "status r = 200" and "outcome \<noteq> Written"
  shows "fst (put_todos_id i body (e\<lparr>writeFileSync := outcome\<rparr>) w) = Inr failed_to_save"
  using assms
  by (auto simp: put_todos_id_def split: prod.splits sum.splits option.splits if_splits
      dest: save_True)

lemma delete_save_fails:
  assumes "fst (delete_todos_id i (e\<lparr>writeFileSync := Written\<rparr>) w) = Inr r"
      and "status r = 200" and "outcome \<noteq> Written"
  shows "fst (delete_todos_id i (e\<lparr>writeFileSync := outcome\<rparr>) w) = Inr failed_to_save"
  using assms
  by (auto simp: delete_todos_id_def split: prod.splits sum.splits option.splits if_splits
      dest: save_True)

lemma post_status:
  "fst (post_todos body e w) = Inr r \<Longrightarrow> status r = 201 \<or> status r = 500"
  by (auto simp: post_todos_def split: prod.splits sum.splits if_splits)

lemma put_status:
  "fst (put_todos_id i body e w) = Inr r \<Longrightarrow> status r = 200 \<or> status r = 404 \<or> status r = 500"
  by (auto simp: put_todos_id_def split: prod.splits sum.splits option.splits if_splits)

lemma delete_status:
  "fst (delete_todos_id i e w) = Inr r \<Longrightarrow> status r = 200 \<or> status r = 404 \<or> status r = 500"
  by (auto simp: delete_todos_id_def split: prod.splits sum.splits option.splits if_splits)

text \<open>
  C5. \<open>saveTodoToFile\<close> returns a boolean in every case, and it is \<^verbatim>\<open>false\<close> whenever
  \<^verbatim>\<open>writeFileSync\<close> does not write. A create, update or delete calls it exactly when
  the request gets as far as the write, that is when the same request in the same world
  is answered 201 or 200 if the write succeeds; when the write fails instead, the answer
  is status 500 with the message \<^verbatim>\<open>Failed to save todo\<close>.
\<close>

theorem save_failure_is_500:
  assumes "req_method req = POST \<or> req_method req = PUT \<or> req_method req = DELETE"
      and "fst (handle req (e\<lparr>writeFileSync := Written\<rparr>) w) = Inr r"
      and "status r = 200 \<or> status r = 201"
      and "outcome \<noteq> Written"
  shows "fst (saveTodoToFile todos outcome w1) = False
       \<and> fst (handle req (e\<lparr>writeFileSync := outcome\<rparr>) w)
           = Inr \<lparr>status = 500,
                  content = Json (JObj (fmap_of_list
                              [(''message'', JStr ''Failed to save todo'')]))\<rparr>"
proof -
  from assms(1) have m: "req_method req \<noteq> HEAD" by auto
  from handle_reached [OF assms(2)] obtain body
    where b: "express_json (req_body req) = Inr body" and p: "req_path req \<noteq> Undecodable"
    by blast
  note plain = handle_plain [OF m b p]
  have "fst (handle req (e\<lparr>writeFileSync := outcome\<rparr>) w) = Inr failed_to_save"
  proof (cases "route (req_method req) (req_path req)")
    case CreateTodo
    with assms post_status [of body "e\<lparr>writeFileSync := Written\<rparr>" w r]
    show ?thesis
      using post_save_fails [of body e w r outcome] by (auto simp: plain run_route_def)
  next
    case (UpdateTodo i)
    with assms put_status [of i body "e\<lparr>writeFileSync := Written\<rparr>" w r]
    show ?thesis
      using put_save_fails [of i body e w r outcome] by (auto simp: plain run_route_def)
  next
    case (DeleteTodo i)
    with assms delete_status [of i "e\<lparr>writeFileSync := Written\<rparr>" w r]
    show ?thesis
      using delete_save_fails [of i e w r outcome] by (auto simp: plain run_route_def)
  next
    case NoRoute
    with assms show ?thesis by (auto simp: plain run_route_def all_other_def)
  next
    case ListTodos
    with assms show ?thesis by (cases "req_path req") auto
  next
    case (GetTodo i)
    with assms show ?thesis by (cases "req_path req") auto
  qed
  with assms(4) show ?thesis by (simp add: save_reports failed_to_save_eq)
qed

theorem save_failure_is_500_witness:
  "(req_method post_groceries = POST \<or> req_method post_groceries = PUT
      \<or> req_method post_groceries = DELETE)
   \<and> fst (handle post_groceries (disk_works\<lparr>writeFileSync := Written\<rparr>) no_file)
       = Inr \<lparr>status = 201, content = Json (JObj (fmap_of_list [(''id'', JStr ''a1'')]))\<rparr>
   \<and> Refused \<noteq> Written
   \<and> fst (saveTodoToFile (Arr []) Refused no_file) = False
   \<and> fst (handle post_groceries (disk_works\<lparr>writeFileSync := Refused\<rparr>) no_file)
       = Inr \<lparr>status = 500,
              content = Json (JObj (fmap_of_list
                          [(''message'', JStr ''Failed to save todo'')]))\<rparr>"
proof -
  let ?r = "\<lparr>status = 201, content = Json (JObj (fmap_of_list [(''id'', JStr ''a1'')]))\<rparr>"
  have m: "req_method post_groceries = POST \<or> req_method post_groceries = PUT
             \<or> req_method post_groceries = DELETE"
    by (simp add: post_groceries_def)
  have ok: "fst (handle post_groceries (disk_works\<lparr>writeFileSync := Written\<rparr>) no_file) = Inr ?r"
    by code_simp
  have st: "status ?r = 200 \<or> status ?r = 201" by simp
  have out: "Refused \<noteq> Written" by simp
  note c = save_failure_is_500 [OF m ok st out, of "Arr []" no_file]
  show ?thesis by (rule conjI m ok out conjunct1 [OF c] conjunct2 [OF c])+
qed

lemma put_not_found:
  assumes "put_todos_id i body e w = (Inr r, w')" and "status r = 404"
  shows "w' = snd (getTodosFromFile w) \<and> r = todo_not_found
       \<and> put_todos_id i body e' w = (Inr r, w')"
  using assms
  by (auto simp: put_todos_id_def split: prod.splits sum.splits option.splits if_splits)

lemma delete_not_found:
  assumes "delete_todos_id i e w = (Inr r, w')" and "status r = 404"
  shows "w' = snd (getTodosFromFile w) \<and> r = todo_not_found
       \<and> delete_todos_id i e' w = (Inr r, w')"
  using assms
  by (auto simp: delete_todos_id_def split: prod.splits sum.splits option.splits if_splits)

text \<open>
  C10. When an update or a delete is answered 404, the world is the one the load left:
  the file is as it was, and the answer and the world are the same whatever
  \<^verbatim>\<open>writeFileSync\<close> would have done, since it is not called.
\<close>

theorem not_found_leaves_file:
  assumes "req_method req = PUT \<or> req_method req = DELETE"
      and "req_path req = Todo i"
      and "handle req e w = (Inr r, w')"
      and "status r = 404"
  shows "r = \<lparr>status = 404,
              content = Json (JObj (fmap_of_list [(''message'', JStr ''Todo not found'')]))\<rparr>
       \<and> w' = snd (getTodosFromFile w)
       \<and> todos_json w' = todos_json w
       \<and> (\<forall>e'. handle req e' w = (Inr r, w'))"
proof -
  from assms(1) have m: "req_method req \<noteq> HEAD" by auto
  from assms(3) have "fst (handle req e w) = Inr r" by simp
  from handle_reached [OF this] obtain body
    where b: "express_json (req_body req) = Inr body" and p: "req_path req \<noteq> Undecodable"
    by blast
  note plain = handle_plain [OF m b p]
  from assms plain put_not_found [of i body e w r w'] delete_not_found [of i e w r w']
  show ?thesis
    by (auto simp: run_route_def todo_not_found_eq)
qed

theorem not_found_leaves_file_witness:
  "(req_method delete_b2 = PUT \<or> req_method delete_b2 = DELETE)
   \<and> req_path delete_b2 = Todo ''b2''
   \<and> handle delete_b2 disk_works groceries_stored = (Inr todo_not_found, groceries_stored)
   \<and> status todo_not_found = 404
   \<and> todos_json groceries_stored = todos_json groceries_stored
   \<and> (\<forall>e'. handle delete_b2 e' groceries_stored = (Inr todo_not_found, groceries_stored))"
proof -
  have m: "req_method delete_b2 = PUT \<or> req_method delete_b2 = DELETE"
    and p: "req_path delete_b2 = Todo ''b2''"
    by (simp_all add: delete_b2_def)
  have h: "handle delete_b2 disk_works groceries_stored = (Inr todo_not_found, groceries_stored)"
    by code_simp
  have st: "status todo_not_found = 404" by simp
  note c = not_found_leaves_file [OF m p h st]
  note c3 = conjunct1 [OF conjunct2 [OF conjunct2 [OF c]]]
  note c4 = conjunct2 [OF conjunct2 [OF conjunct2 [OF c]]]
  show ?thesis by (rule conjI m p h st c3 c4)+
qed

subsection \<open>Reading documents\<close>

text \<open>Reading a property of a parsed document.\<close>

lemma get_prop_JSON_parse:
  "get_prop (JSON_parse j) k = (if j = JNull then Inl TypeError else Inr (parsed_prop j k))"
  by (cases j) (simp_all add: parsed_prop_def split: option.splits)

lemma parsed_prop_Undefined: "(parsed_prop j k = Undefined) = (jprop j k = None)"
  by (simp add: parsed_prop_def split: option.splits)

lemma serialize_parsed_prop:
  "parsed_prop j k \<noteq> Undefined \<Longrightarrow> Some (serialize (parsed_prop j k)) = map_option render (jprop j k)"
  by (simp add: parsed_prop_def render_def split: option.splits)

lemma js_or_defined [simp]: "js_or c (Bool False) \<noteq> Undefined"
  by (cases c) (simp_all add: js_or_def)

lemma serialize_completed:
  "serialize (js_or (parsed_prop j ''completed'') (Bool False))
     = completed_or_false (jprop j ''completed'')"
  by (simp add: js_or_def parsed_prop_def completed_or_false_def falsy_def render_def
      split: option.splits)

lemma JSON_parse_eq_Str [simp]: "(JSON_parse v = Str i) = (v = JStr i)"
  by (cases v) auto

lemma render_eq_JStr [simp]: "(render v = JStr s) = (v = JStr s)"
proof (cases v)
  case (JNum q)
  then show ?thesis by (cases "to_number q") (simp_all add: render_def)
qed (auto simp: render_def)

lemma parsed_prop_eq_Str: "(parsed_prop j k = Str i) = (jprop j k = Some (JStr i))"
  by (simp add: parsed_prop_def split: option.splits)

lemma jprop_render: "jprop (render j) k = map_option render (jprop j k)"
proof (cases j)
  case (JNum q)
  then show ?thesis by (cases "to_number q") (simp_all add: render_def)
next
  case (JObj m)
  then show ?thesis by (cases "fmlookup m k") (simp_all add: render_def)
qed (simp_all add: render_def)

lemma id_of_jprop:
  "id_of j = (case jprop j ''id'' of Some (JStr s) \<Rightarrow> Some s | _ \<Rightarrow> None)"
  by (cases j) simp_all

lemma id_of_eq: "(id_of j = Some i) = (jprop j ''id'' = Some (JStr i))"
  by (auto simp: id_of_jprop split: option.splits json.splits)

lemma id_of_cong: "jprop j ''id'' = jprop j' ''id'' \<Longrightarrow> id_of j = id_of j'"
  by (simp add: id_of_jprop)

lemma id_of_render [simp]: "id_of (render j) = id_of j"
proof (cases "id_of j")
  case None
  show ?thesis
  proof (cases "id_of (render j)")
    case (Some i)
    then have "jprop j ''id'' = Some (JStr i)"
      by (auto simp: id_of_eq jprop_render)
    with None show ?thesis by (simp add: id_of_eq [symmetric])
  qed (simp add: None)
next
  case (Some i)
  then have "jprop (render j) ''id'' = Some (JStr i)"
    by (simp add: id_of_eq jprop_render)
  then have "id_of (render j) = Some i" by (simp only: id_of_eq)
  with Some show ?thesis by simp
qed

lemma id_of_not_null: "id_of j \<noteq> None \<Longrightarrow> j \<noteq> JNull"
  by (cases j) auto


lemma find_todo_append:
  "find_todo (xs @ ys) i =
     (case find_todo xs i of
        Inr None \<Rightarrow> (case find_todo ys i of
                       Inr (Some (n, t)) \<Rightarrow> Inr (Some (length xs + n, t))
                     | other \<Rightarrow> other)
      | found \<Rightarrow> found)"
  by (induction xs) (auto split: sum.splits option.splits)

text \<open>A search that finds nothing: no element is \<^verbatim>\<open>null\<close>, and none has the id.\<close>

lemma find_todo_None:
  "(find_todo (map JSON_parse js) i = Inr None)
     = (\<forall>j \<in> set js. j \<noteq> JNull \<and> id_of j \<noteq> Some i)"
  by (induction js)
     (auto simp: get_prop_JSON_parse parsed_prop_eq_Str id_of_eq split: sum.splits option.splits)

lemma find_todo_rendered:
  assumes "find_todo (map JSON_parse js) i = Inr None"
      and "list_all (\<lambda>t. id_of t \<noteq> None) js"
  shows "find_todo (map JSON_parse (map render js)) i = Inr None"
proof -
  have "j \<noteq> JNull \<and> id_of j \<noteq> Some i" if "j \<in> set (map render js)" for j
  proof -
    from that obtain t where t: "t \<in> set js" and j: "j = render t" by auto
    from t assms(2) have "id_of t \<noteq> None" by (simp add: list_all_iff)
    moreover from t assms(1) have "id_of t \<noteq> Some i" by (simp add: find_todo_None)
    ultimately show ?thesis using id_of_not_null [of j] by (simp add: j)
  qed
  then show ?thesis by (simp only: find_todo_None) blast
qed

subsection \<open>Create, then get\<close>

lemma newTodo_JSON_parse:
  "newTodo u (JSON_parse body) =
     (if body = JNull then Inl TypeError
      else Inr (Obj (fmap_of_list
                  [(''id'', Str u), (''title'', parsed_prop body ''title''),
                   (''description'', parsed_prop body ''description''),
                   (''completed'', js_or (parsed_prop body ''completed'') (Bool False))])))"
  by (simp add: newTodo_def get_prop_JSON_parse)

lemma serialize_newTodo:
  assumes "newTodo u (JSON_parse body) = Inr new"
  shows "jprop (serialize new) ''id'' = Some (JStr u)"
    and "jprop (serialize new) ''title'' = map_option render (jprop body ''title'')"
    and "jprop (serialize new) ''description'' = map_option render (jprop body ''description'')"
    and "jprop (serialize new) ''completed''
           = Some (completed_or_false (jprop body ''completed''))"
  using assms
  by (auto simp: newTodo_JSON_parse serialize_completed serialize_parsed_prop
        parsed_prop_Undefined fmlookup_of_list split: if_splits)

lemma get_prop_id_serialize_newTodo:
  assumes "newTodo u (JSON_parse body) = Inr new"
  shows "get_prop (JSON_parse (serialize new)) ''id'' = Inr (Str u)"
  using serialize_newTodo(1) [OF assms]
  by (auto simp: get_prop_JSON_parse parsed_prop_eq_Str)

text \<open>What a create that is answered 201 has done.\<close>

lemma post_created:
  assumes "post_todos body e w = (Inr r, w1)" and "status r = 201"
  shows "\<exists>new js. newTodo (uuidV4 e) (JSON_parse body) = Inr new
           \<and> getTodosFromFile w = (Arr (map JSON_parse js), snd (getTodosFromFile w))
           \<and> js = records (todos_json w)
           \<and> w1 = (snd (getTodosFromFile w))
                    \<lparr>todos_json := Holds (JArr (map render js @ [serialize new]))\<rparr>
           \<and> r = res_json 201 (Obj (fmap_of_list [(''id'', Str (uuidV4 e))]))"
proof -
  from assms obtain new where new: "newTodo (uuidV4 e) (JSON_parse body) = Inr new"
    by (auto simp: post_todos_def split: sum.splits)
  then have id: "get_prop new ''id'' = Inr (Str (uuidV4 e))"
    by (auto simp: newTodo_JSON_parse fmlookup_of_list split: if_splits)
  obtain todos w0 where load: "getTodosFromFile w = (todos, w0)"
    by (cases "getTodosFromFile w")
  with assms new obtain ts where ts: "todos = Arr ts"
    by (cases todos) (auto simp: post_todos_def)
  with load loaded_array [of w ts w0] obtain js
    where js: "ts = map JSON_parse js" and recs: "js = records (todos_json w)"
    by (auto simp: read_fails_records)
  from assms new load ts id
  have "writeFileSync e = Written"
    by (auto simp: post_todos_def split: prod.splits if_splits dest: save_True)
  with assms new load ts js recs id show ?thesis
    by (intro exI [of _ new] exI [of _ js])
       (auto simp: post_todos_def saveTodoToFile_def JSON_stringify_def)
qed

lemma get_not_found:
  assumes "fst (get_todos_id i w) = Inr r" and "status r = 404"
  shows "todos_find (fst (getTodosFromFile w)) i = Inr None"
  using assms
  by (auto simp: get_todos_id_def split: prod.splits sum.splits option.splits)

lemma number_free_jprop:
  "number_free body \<Longrightarrow> map_option render (jprop body k) = jprop body k"
proof (cases body)
  case (JObj m)
  assume "number_free body"
  with JObj show ?thesis
    by (cases "fmlookup m k") (auto intro!: render_number_free dest: fmran'I)
qed simp_all

lemma post_then_lookup:
  assumes create: "post_todos body e w = (Inr r, w1)" and "status r = 201"
      and ids: "list_all (\<lambda>t. id_of t \<noteq> None) (records (todos_json w))"
      and fresh: "fst (get_todos_id (uuidV4 e) w) = Inr nf" "status nf = 404"
  shows "r = \<lparr>status = 201,
              content = Json (JObj (fmap_of_list [(''id'', JStr (uuidV4 e))]))\<rparr>
       \<and> (\<exists>rec. get_todos_id (uuidV4 e) w1 = (Inr \<lparr>status = 200, content = Json rec\<rparr>, w1)
              \<and> jprop rec ''id'' = Some (JStr (uuidV4 e))
              \<and> jprop rec ''title'' = map_option render (jprop body ''title'')
              \<and> jprop rec ''description'' = map_option render (jprop body ''description'')
              \<and> jprop rec ''completed'' = Some (completed_or_false (jprop body ''completed'')))"
proof -
  from post_created [OF create \<open>status r = 201\<close>] obtain new js
    where new: "newTodo (uuidV4 e) (JSON_parse body) = Inr new"
      and js: "getTodosFromFile w = (Arr (map JSON_parse js), snd (getTodosFromFile w))"
      and recs: "js = records (todos_json w)"
      and w1: "w1 = (snd (getTodosFromFile w))
                      \<lparr>todos_json := Holds (JArr (map render js @ [serialize new]))\<rparr>"
      and r: "r = res_json 201 (Obj (fmap_of_list [(''id'', Str (uuidV4 e))]))"
    by blast
  from js have "fst (getTodosFromFile w) = Arr (map JSON_parse js)"
    by (metis fst_conv)
  with get_not_found [OF fresh]
  have "find_todo (map JSON_parse js) (uuidV4 e) = Inr None"
    by simp
  with ids recs have none: "find_todo (map JSON_parse (map render js)) (uuidV4 e) = Inr None"
    by (simp only: find_todo_rendered)
  have load: "getTodosFromFile w1
                = (Arr (map JSON_parse (map render js) @ [JSON_parse (serialize new)]), w1)"
    by (simp add: w1 getTodosFromFile_def)
  have "find_todo (map JSON_parse (map render js) @ [JSON_parse (serialize new)]) (uuidV4 e)
          = Inr (Some (length (map JSON_parse (map render js)), JSON_parse (serialize new)))"
    by (simp only: find_todo_append none)
       (simp add: get_prop_id_serialize_newTodo [OF new])
  with load have "get_todos_id (uuidV4 e) w1
                    = (Inr \<lparr>status = 200, content = Json (serialize new)\<rparr>, w1)"
    by (simp add: get_todos_id_def res_json_def JSON_stringify_def)
  moreover have "r = \<lparr>status = 201,
                      content = Json (JObj (fmap_of_list [(''id'', JStr (uuidV4 e))]))\<rparr>"
    unfolding r by (simp add: res_json_def JSON_stringify_def fmap_ext fmlookup_of_list)
  ultimately show ?thesis using serialize_newTodo [OF new] by simp
qed


text \<open>
  C1, as the specification has it, fails. A create whose title is the number
  \<^verbatim>\<open>1e309\<close> is answered 201, and the get for the id it returns is answered 200 with the
  title \<^verbatim>\<open>null\<close>: the number overflows when the body is parsed, and \<^verbatim>\<open>JSON.stringify\<close>
  writes the infinity as \<^verbatim>\<open>null\<close>. And with the file \<^verbatim>\<open>[null]\<close> a create is answered
  201, and the get for the id it returns throws, at the \<^verbatim>\<open>null\<close> that \<^verbatim>\<open>find\<close> meets
  first.
\<close>

theorem created_title_comes_back_null:
  "req_method post_huge = POST \<and> req_path post_huge = Todos
   \<and> express_json (req_body post_huge) = Inr post_huge_body
   \<and> jprop post_huge_body ''title'' = Some (JNum (10 ^ 309))
   \<and> handle post_huge disk_works no_file
       = (Inr \<lparr>status = 201, content = Json (JObj (fmap_of_list [(''id'', JStr ''a1'')]))\<rparr>,
          huge_stored)
   \<and> (\<exists>rec. handle get_a1 disk_works huge_stored
               = (Inr \<lparr>status = 200, content = Json rec\<rparr>, huge_stored)
          \<and> jprop rec ''title'' = Some JNull)
   \<and> handle post_groceries disk_works null_stored
       = (Inr \<lparr>status = 201, content = Json (JObj (fmap_of_list [(''id'', JStr ''a1'')]))\<rparr>,
          null_and_groceries)
   \<and> handle get_a1 disk_works null_and_groceries = (Inl TypeError, null_and_groceries)"
proof -
  have "handle get_a1 disk_works huge_stored
          = (Inr \<lparr>status = 200,
                  content = Json (JObj (fmap_of_list
                    [(''id'', JStr ''a1''), (''title'', JNull), (''completed'', JBool False)]))\<rparr>,
             huge_stored)"
    by code_simp
  moreover have "jprop (JObj (fmap_of_list
                    [(''id'', JStr ''a1''), (''title'', JNull), (''completed'', JBool False)]))
                   ''title'' = Some JNull"
    by (simp add: fmlookup_of_list)
  ultimately have "\<exists>rec. handle get_a1 disk_works huge_stored
               = (Inr \<lparr>status = 200, content = Json rec\<rparr>, huge_stored)
          \<and> jprop rec ''title'' = Some JNull"
    by blast
  moreover have "req_method post_huge = POST" "req_path post_huge = Todos"
    by (simp_all add: post_huge_def)
  moreover have "express_json (req_body post_huge) = Inr post_huge_body"
    by (simp add: post_huge_def post_huge_body_def)
  moreover have "jprop post_huge_body ''title'' = Some (JNum (10 ^ 309))"
    by (simp add: post_huge_body_def fmlookup_of_list)
  moreover have "handle post_huge disk_works no_file
       = (Inr \<lparr>status = 201, content = Json (JObj (fmap_of_list [(''id'', JStr ''a1'')]))\<rparr>,
          huge_stored)"
    by code_simp
  moreover have "handle post_groceries disk_works null_stored
       = (Inr \<lparr>status = 201, content = Json (JObj (fmap_of_list [(''id'', JStr ''a1'')]))\<rparr>,
          null_and_groceries)"
    by code_simp
  moreover have "handle get_a1 disk_works null_and_groceries = (Inl TypeError, null_and_groceries)"
    by code_simp
  ultimately show ?thesis by (intro conjI)
qed


text \<open>
  C1, amended. Let a create whose body \<^verbatim>\<open>express.json()\<close> accepts be answered 201, at a
  file whose records all have an id, a string, none of them the id the create returns
  (a get for it was answered 404 before). Then the reply holds the token of \<^verbatim>\<open>uuidV4\<close>
  as the id, and a get for it after the create is answered 200 with a record of that id
  whose \<^verbatim>\<open>title\<close> and \<^verbatim>\<open>description\<close> are those of the body as the server renders
  them, present or absent alike, and whose \<^verbatim>\<open>completed\<close> is that of the body as
  rendered, or \<^verbatim>\<open>false\<close> when the body has none or a falsy one. A body without a number
  is rendered as it is: then \<^verbatim>\<open>title\<close> and \<^verbatim>\<open>description\<close> are identical to those
  submitted.
\<close>

theorem create_then_get:
  assumes "req_method req = POST" and "req_path req = Todos"
      and "express_json (req_body req) = Inr body"
      and "handle req e w = (Inr r, w1)" and "status r = 201"
      and "list_all (\<lambda>t. id_of t \<noteq> None) (records (todos_json w))"
      and "req_method g = GET" and "req_path g = Todo (uuidV4 e)"
      and "fst (handle g e' w) = Inr nf" and "status nf = 404"
  shows "r = \<lparr>status = 201,
              content = Json (JObj (fmap_of_list [(''id'', JStr (uuidV4 e))]))\<rparr>
       \<and> (\<exists>rec. handle g e' w1 = (Inr \<lparr>status = 200, content = Json rec\<rparr>, w1)
              \<and> jprop rec ''id'' = Some (JStr (uuidV4 e))
              \<and> jprop rec ''title'' = map_option render (jprop body ''title'')
              \<and> jprop rec ''description'' = map_option render (jprop body ''description'')
              \<and> jprop rec ''completed'' = Some (completed_or_false (jprop body ''completed''))
              \<and> (number_free body \<longrightarrow>
                    jprop rec ''title'' = jprop body ''title''
                    \<and> jprop rec ''description'' = jprop body ''description''))"
proof -
  from assms(9) obtain gbody where g: "express_json (req_body g) = Inr gbody"
    and gp: "req_path g \<noteq> Undecodable"
    using handle_reached by blast
  have get: "handle g e' v = get_todos_id (uuidV4 e) v" for v
    using handle_plain [OF _ g gp, of e' v] assms(7,8) by (simp add: run_route_def)
  have post: "handle req e w = post_todos body e w"
    using handle_plain [OF _ assms(3), of e w] assms(1,2) by (simp add: run_route_def)
  from post_then_lookup [of body e w r w1 nf] assms post get
  obtain rec where r: "r = \<lparr>status = 201,
              content = Json (JObj (fmap_of_list [(''id'', JStr (uuidV4 e))]))\<rparr>"
    and rec: "handle g e' w1 = (Inr \<lparr>status = 200, content = Json rec\<rparr>, w1)"
      "jprop rec ''id'' = Some (JStr (uuidV4 e))"
      "jprop rec ''title'' = map_option render (jprop body ''title'')"
      "jprop rec ''description'' = map_option render (jprop body ''description'')"
      "jprop rec ''completed'' = Some (completed_or_false (jprop body ''completed''))"
    by auto
  from rec(3,4) have "number_free body \<longrightarrow>
                    jprop rec ''title'' = jprop body ''title''
                    \<and> jprop rec ''description'' = jprop body ''description''"
    by (simp add: number_free_jprop)
  with r rec show ?thesis by blast
qed

theorem create_then_get_witness:
  "req_method post_groceries = POST \<and> req_path post_groceries = Todos
   \<and> express_json (req_body post_groceries) = Inr post_groceries_body
   \<and> handle post_groceries disk_works no_file
       = (Inr \<lparr>status = 201, content = Json (JObj (fmap_of_list [(''id'', JStr ''a1'')]))\<rparr>,
          groceries_stored)
   \<and> list_all (\<lambda>t. id_of t \<noteq> None) (records (todos_json no_file))
   \<and> req_method get_a1 = GET \<and> req_path get_a1 = Todo (uuidV4 disk_works)
   \<and> fst (handle get_a1 disk_works no_file) = Inr todo_not_found
   \<and> number_free post_groceries_body
   \<and> (\<exists>rec. handle get_a1 disk_works groceries_stored
               = (Inr \<lparr>status = 200, content = Json rec\<rparr>, groceries_stored)
          \<and> jprop rec ''id'' = Some (JStr ''a1'')
          \<and> jprop rec ''title'' = Some (JStr ''Buy groceries'')
          \<and> jprop rec ''description'' = Some (JStr ''I should buy groceries'')
          \<and> jprop rec ''completed'' = Some (JBool False))"
proof -
  let ?r = "\<lparr>status = 201, content = Json (JObj (fmap_of_list [(''id'', JStr ''a1'')]))\<rparr>"
  have m: "req_method post_groceries = POST" and p: "req_path post_groceries = Todos"
    by (simp_all add: post_groceries_def)
  have b: "express_json (req_body post_groceries) = Inr post_groceries_body"
    by (simp add: post_groceries_def post_groceries_body_def)
  have created: "handle post_groceries disk_works no_file = (Inr ?r, groceries_stored)"
    by code_simp
  have st: "status ?r = 201" by simp
  have ids: "list_all (\<lambda>t. id_of t \<noteq> None) (records (todos_json no_file))"
    by (simp add: no_file_def records_def)
  have gm: "req_method get_a1 = GET" and gp: "req_path get_a1 = Todo (uuidV4 disk_works)"
    by (simp_all add: get_a1_def disk_works_def)
  have nf: "fst (handle get_a1 disk_works no_file) = Inr todo_not_found"
    by code_simp
  have nfs: "status todo_not_found = 404" by simp
  have free: "number_free post_groceries_body"
    by code_simp
  have props: "jprop post_groceries_body ''title'' = Some (JStr ''Buy groceries'')"
    "jprop post_groceries_body ''description'' = Some (JStr ''I should buy groceries'')"
    "completed_or_false (jprop post_groceries_body ''completed'') = JBool False"
    by (simp_all add: post_groceries_body_def fmlookup_of_list completed_or_false_def)
  have token: "uuidV4 disk_works = ''a1''"
    by (simp add: disk_works_def)
  from create_then_get [OF m p b created st ids gm gp nf nfs]
  have "\<exists>rec. handle get_a1 disk_works groceries_stored
               = (Inr \<lparr>status = 200, content = Json rec\<rparr>, groceries_stored)
          \<and> jprop rec ''id'' = Some (JStr ''a1'')
          \<and> jprop rec ''title'' = Some (JStr ''Buy groceries'')
          \<and> jprop rec ''description'' = Some (JStr ''I should buy groceries'')
          \<and> jprop rec ''completed'' = Some (JBool False)"
    using free by (auto simp: props token render_def)
  with m p b created ids gm gp nf free show ?thesis by (intro conjI)
qed

subsection \<open>Update\<close>

lemma find_todo_Some:
  "find_todo (map JSON_parse js) i = Inr (Some (n, t))
     \<Longrightarrow> n < length js \<and> t = JSON_parse (js ! n) \<and> jprop (js ! n) ''id'' = Some (JStr i)
         \<and> (\<forall>m<n. jprop (js ! m) ''id'' \<noteq> Some (JStr i))"
proof (induction js arbitrary: n t)
  case Nil
  then show ?case by simp
next
  case (Cons j js)
  show ?case
  proof (cases "jprop j ''id'' = Some (JStr i)")
    case True
    with Cons.prems show ?thesis
      by (auto simp: get_prop_JSON_parse parsed_prop_eq_Str split: if_splits)
  next
    case False
    with Cons.prems obtain m where "find_todo (map JSON_parse js) i = Inr (Some (m, t))" "n = Suc m"
      by (auto simp: get_prop_JSON_parse parsed_prop_eq_Str split: if_splits sum.splits option.splits)
    with Cons.IH [of m t] False show ?thesis by (auto simp: less_Suc_eq_0_disj)
  qed
qed

lemma assign_todo_parsed:
  "assign_todo (Obj m) (JSON_parse body) =
     (if body = JNull then Inl TypeError
      else Inr (Obj (fmupd ''completed'' (js_or (parsed_prop body ''completed'') (Bool False))
                 (fmupd ''description'' (parsed_prop body ''description'')
                   (fmupd ''title'' (parsed_prop body ''title'') m)))))"
  by (simp add: assign_todo_def get_prop_JSON_parse)

lemma jprop_serialize_Obj:
  "jprop (serialize (Obj m)) k
     = (case fmlookup m k of None \<Rightarrow> None
        | Some v \<Rightarrow> if v = Undefined then None else Some (serialize v))"
  by (simp split: option.splits)

lemma updated_fields:
  assumes "assign_todo (JSON_parse (JObj m)) (JSON_parse body) = Inr todo'"
  shows "jprop (serialize todo') ''title'' = map_option render (jprop body ''title'')"
    and "jprop (serialize todo') ''description'' = map_option render (jprop body ''description'')"
    and "jprop (serialize todo') ''completed''
           = Some (completed_or_false (jprop body ''completed''))"
    and "k \<noteq> ''title'' \<Longrightarrow> k \<noteq> ''description'' \<Longrightarrow> k \<noteq> ''completed''
           \<Longrightarrow> jprop (serialize todo') k = jprop (render (JObj m)) k"
    and "todo' \<noteq> Undefined"
  using assms
  by (auto simp: assign_todo_parsed serialize_completed serialize_parsed_prop
        parsed_prop_Undefined jprop_render render_def split: if_splits option.splits)

text \<open>What an update that is answered 200 has done.\<close>

lemma put_updated:
  assumes "put_todos_id i body e w = (Inr r, w')" and "status r = 200"
  shows "\<exists>js n m todo'. todos_json w = Holds (JArr js) \<and> n < length js \<and> js ! n = JObj m
           \<and> fmlookup m ''id'' = Some (JStr i)
           \<and> (\<forall>l<n. jprop (js ! l) ''id'' \<noteq> Some (JStr i))
           \<and> assign_todo (JSON_parse (JObj m)) (JSON_parse body) = Inr todo'
           \<and> w' = w\<lparr>todos_json := Holds (JArr ((map render js)[n := serialize todo']))\<rparr>
           \<and> r = \<lparr>status = 200, content = Json (serialize todo')\<rparr>"
proof -
  obtain todos w0 where load: "getTodosFromFile w = (todos, w0)"
    by (cases "getTodosFromFile w")
  with assms obtain n todo where found: "todos_find todos i = Inr (Some (n, todo))"
    by (auto simp: put_todos_id_def split: sum.splits option.splits)
  then obtain ts where ts: "todos = Arr ts" and f: "find_todo ts i = Inr (Some (n, todo))"
    by (cases todos) auto
  with load loaded_array [of w ts w0] obtain js
    where js: "ts = map JSON_parse js" and holds: "todos_json w = Holds (JArr js)" and w0: "w0 = w"
    by auto
  from find_todo_Some [of js i n todo] f js
  have n: "n < length js" and todo: "todo = JSON_parse (js ! n)"
    and id: "jprop (js ! n) ''id'' = Some (JStr i)"
    and first: "\<forall>l<n. jprop (js ! l) ''id'' \<noteq> Some (JStr i)"
    by auto
  from id obtain m where m: "js ! n = JObj m" and idm: "fmlookup m ''id'' = Some (JStr i)"
    by (cases "js ! n") auto
  from assms load found todo m obtain todo'
    where todo': "assign_todo (JSON_parse (JObj m)) (JSON_parse body) = Inr todo'"
    by (auto simp: put_todos_id_def split: sum.splits)
  note obj = updated_fields(5) [OF todo']
  from assms load found todo m todo' ts
  have "writeFileSync e = Written"
    by (auto simp: put_todos_id_def split: prod.splits if_splits dest: save_True)
  with assms load found todo m todo' ts js w0 obj n
  have "w' = w\<lparr>todos_json := Holds (JArr ((map render js)[n := serialize todo']))\<rparr>
      \<and> r = \<lparr>status = 200, content = Json (serialize todo')\<rparr>"
    by (auto simp: put_todos_id_def saveTodoToFile_def JSON_stringify_def res_json_def
        map_update)
  with holds n m idm first todo' show ?thesis by blast
qed



lemma settled_serialize: "settled (serialize v)"
  by (simp add: settled_def)

lemma settled_number_free: "number_free j \<Longrightarrow> settled j"
  by (simp add: settled_def render_number_free)

lemma put_a1_updated:
  "handle put_a1 disk_works two_stored
     = (Inr \<lparr>status = 200, content = Json milk\<rparr>,
        two_stored\<lparr>todos_json := Holds (JArr [milk, laundry])\<rparr>)"
  by code_simp

text \<open>
  C8, as the specification has it, fails. The file holds two records, the first with
  the title \<^verbatim>\<open>1e309\<close>. An update of the second is answered 200, and the file then
  holds the first record with the title \<^verbatim>\<open>null\<close>: the update writes the whole list
  again, and the number overflowed when the file was parsed.
\<close>

theorem update_rewrites_other_record:
  "req_method put_b2 = PUT \<and> req_path put_b2 = Todo ''b2''
   \<and> todos_json overflowing_stored = Holds (JArr [overflowing, laundry])
   \<and> handle put_b2 disk_works overflowing_stored
       = (Inr \<lparr>status = 200, content = Json ironing\<rparr>,
          overflowing_stored\<lparr>todos_json := Holds (JArr [overflowed, ironing])\<rparr>)
   \<and> jprop overflowing ''title'' = Some (JNum (10 ^ 309))
   \<and> jprop overflowed ''title'' = Some JNull"
proof -
  have "req_method put_b2 = PUT" "req_path put_b2 = Todo ''b2''"
    by (simp_all add: put_b2_def)
  moreover have "todos_json overflowing_stored = Holds (JArr [overflowing, laundry])"
    by (simp add: overflowing_stored_def)
  moreover have "handle put_b2 disk_works overflowing_stored
       = (Inr \<lparr>status = 200, content = Json ironing\<rparr>,
          overflowing_stored\<lparr>todos_json := Holds (JArr [overflowed, ironing])\<rparr>)"
    by code_simp
  moreover have "jprop overflowing ''title'' = Some (JNum (10 ^ 309))"
    by (simp add: overflowing_def fmlookup_of_list)
  moreover have "jprop overflowed ''title'' = Some JNull"
    by (simp add: overflowed_def fmlookup_of_list)
  ultimately show ?thesis by (intro conjI)
qed

text \<open>
  C8, amended. An update that is answered 200 found the file holding an array and, at
  place \<open>n\<close>, the first record of it with the id of the request. The file then holds
  the array as the server renders it, with the record at place \<open>n\<close> replaced by the
  record of the answer, and nothing else of the world has changed: the array has the
  same length, and every other place holds the record it held, as rendered, which is the
  record itself when it is settled. The new record has the id of the old one, and every
  property other than \<^verbatim>\<open>title\<close>, \<^verbatim>\<open>description\<close> and \<^verbatim>\<open>completed\<close> is that of the
  old record as rendered.
\<close>

theorem update_changes_one_record:
  assumes "req_method req = PUT" and "req_path req = Todo i"
      and "handle req e w = (Inr r, w')" and "status r = 200"
  shows "\<exists>js n rec. todos_json w = Holds (JArr js) \<and> n < length js
           \<and> jprop (js ! n) ''id'' = Some (JStr i)
           \<and> (\<forall>l<n. jprop (js ! l) ''id'' \<noteq> Some (JStr i))
           \<and> r = \<lparr>status = 200, content = Json rec\<rparr>
           \<and> w' = w\<lparr>todos_json := Holds (JArr ((map render js)[n := rec]))\<rparr>
           \<and> jprop rec ''id'' = Some (JStr i)
           \<and> (\<forall>k. k \<noteq> ''title'' \<and> k \<noteq> ''description'' \<and> k \<noteq> ''completed''
                  \<longrightarrow> jprop rec k = jprop (render (js ! n)) k)
           \<and> length ((map render js)[n := rec]) = length js
           \<and> (\<forall>l. l < length js \<and> l \<noteq> n
                  \<longrightarrow> (map render js)[n := rec] ! l = render (js ! l))
           \<and> (\<forall>l. l < length js \<and> l \<noteq> n \<and> settled (js ! l)
                  \<longrightarrow> (map render js)[n := rec] ! l = js ! l)"
proof -
  from assms(3) obtain body where b: "express_json (req_body req) = Inr body"
    and p: "req_path req \<noteq> Undecodable"
    using handle_reached [of req e w r] by auto
  from handle_plain [OF _ b p, of e w] assms
  have "put_todos_id i body e w = (Inr r, w')"
    by (simp add: run_route_def)
  from put_updated [OF this \<open>status r = 200\<close>] obtain js n m todo'
    where holds: "todos_json w = Holds (JArr js)" and n: "n < length js"
      and m: "js ! n = JObj m" and id: "fmlookup m ''id'' = Some (JStr i)"
      and first: "\<forall>l<n. jprop (js ! l) ''id'' \<noteq> Some (JStr i)"
      and todo': "assign_todo (JSON_parse (JObj m)) (JSON_parse body) = Inr todo'"
      and w': "w' = w\<lparr>todos_json := Holds (JArr ((map render js)[n := serialize todo']))\<rparr>"
      and r: "r = \<lparr>status = 200, content = Json (serialize todo')\<rparr>"
    by blast
  have other: "jprop (serialize todo') k = jprop (render (js ! n)) k"
    if "k \<noteq> ''title''" "k \<noteq> ''description''" "k \<noteq> ''completed''" for k
    using updated_fields(4) [OF todo' that] m by simp
  from other [of "''id''"] m id have new_id: "jprop (serialize todo') ''id'' = Some (JStr i)"
    by (simp add: jprop_render)
  from m id have old_id: "jprop (js ! n) ''id'' = Some (JStr i)"
    by simp
  have rest: "(map render js)[n := serialize todo'] ! l = render (js ! l)"
    if "l < length js" "l \<noteq> n" for l
    using that by simp
  then have same: "(map render js)[n := serialize todo'] ! l = js ! l"
    if "l < length js" "l \<noteq> n" "settled (js ! l)" for l
    using that by (simp add: settled_def)
  from holds n old_id first w' r new_id other rest same show ?thesis
    by (intro exI [of _ js] exI [of _ n] exI [of _ "serialize todo'"]) simp
qed

theorem update_changes_one_record_witness:
  "req_method put_a1 = PUT \<and> req_path put_a1 = Todo ''a1''
   \<and> todos_json two_stored = Holds (JArr [serialize groceries, laundry])
   \<and> settled laundry
   \<and> handle put_a1 disk_works two_stored
       = (Inr \<lparr>status = 200, content = Json milk\<rparr>,
          two_stored\<lparr>todos_json := Holds (JArr [milk, laundry])\<rparr>)
   \<and> (\<exists>js n rec. todos_json two_stored = Holds (JArr js) \<and> n < length js
           \<and> jprop (js ! n) ''id'' = Some (JStr ''a1'')
           \<and> (\<forall>l<n. jprop (js ! l) ''id'' \<noteq> Some (JStr ''a1''))
           \<and> \<lparr>status = 200, content = Json milk\<rparr> = \<lparr>status = 200, content = Json rec\<rparr>
           \<and> two_stored\<lparr>todos_json := Holds (JArr [milk, laundry])\<rparr>
               = two_stored\<lparr>todos_json := Holds (JArr ((map render js)[n := rec]))\<rparr>
           \<and> jprop rec ''id'' = Some (JStr ''a1'')
           \<and> (\<forall>k. k \<noteq> ''title'' \<and> k \<noteq> ''description'' \<and> k \<noteq> ''completed''
                  \<longrightarrow> jprop rec k = jprop (render (js ! n)) k)
           \<and> length ((map render js)[n := rec]) = length js
           \<and> (\<forall>l. l < length js \<and> l \<noteq> n
                  \<longrightarrow> (map render js)[n := rec] ! l = render (js ! l))
           \<and> (\<forall>l. l < length js \<and> l \<noteq> n \<and> settled (js ! l)
                  \<longrightarrow> (map render js)[n := rec] ! l = js ! l))"
proof -
  have m: "req_method put_a1 = PUT" and p: "req_path put_a1 = Todo ''a1''"
    by (simp_all add: put_a1_def)
  have holds: "todos_json two_stored = Holds (JArr [serialize groceries, laundry])"
    by (simp add: two_stored_def)
  have same: "settled laundry"
    by code_simp
  have st: "status \<lparr>status = 200, content = Json milk\<rparr> = 200" by simp
  note c = update_changes_one_record [OF m p put_a1_updated st]
  show ?thesis by (rule conjI m p holds same put_a1_updated c)+
qed




subsection \<open>Delete, then get\<close>

lemma find_todo_absent:
  assumes "list_all (\<lambda>t. id_of t \<noteq> None) js" and "Some i \<notin> set (map id_of js)"
  shows "find_todo (map JSON_parse (map render js)) i = Inr None"
proof -
  have "j \<noteq> JNull \<and> id_of j \<noteq> Some i" if "j \<in> set (map render js)" for j
  proof -
    from that obtain t where t: "t \<in> set js" and j: "j = render t" by auto
    from t assms(1) have "id_of t \<noteq> None" by (simp add: list_all_iff)
    moreover from t assms(2) have "id_of t \<noteq> Some i" by force
    ultimately show ?thesis using id_of_not_null [of j] by (simp add: j)
  qed
  then show ?thesis by (simp only: find_todo_None) blast
qed

lemma removed_id_absent:
  assumes "distinct (map f xs)" and "n < length xs"
  shows "f (xs ! n) \<notin> set (map f (take n xs @ drop (Suc n) xs))"
proof -
  from assms(2) have "xs = take n xs @ xs ! n # drop (Suc n) xs"
    by (rule id_take_nth_drop)
  then have "map f xs = map f (take n xs) @ f (xs ! n) # map f (drop (Suc n) xs)"
    by (metis list.simps(9) map_append)
  with assms(1) show ?thesis by auto
qed

lemma unique_ids_Holds:
  "unique_ids (Holds (JArr js)) = (list_all (\<lambda>t. id_of t \<noteq> None) js \<and> distinct (map id_of js))"
  by (simp add: unique_ids_def)

lemma list_all_remove:
  "list_all P xs \<Longrightarrow> list_all P (take n xs @ drop (Suc n) xs)"
  by (auto simp: list_all_iff dest: in_set_takeD in_set_dropD)

text \<open>What a delete that is answered 200 has done.\<close>

lemma delete_deleted:
  assumes "delete_todos_id i e w = (Inr r, w')" and "status r = 200"
  shows "\<exists>js n. todos_json w = Holds (JArr js) \<and> n < length js
           \<and> jprop (js ! n) ''id'' = Some (JStr i)
           \<and> (\<forall>l<n. jprop (js ! l) ''id'' \<noteq> Some (JStr i))
           \<and> w' = w\<lparr>todos_json := Holds (JArr (map render (take n js @ drop (Suc n) js)))\<rparr>
           \<and> r = todo_deleted"
proof -
  obtain todos w0 where load: "getTodosFromFile w = (todos, w0)"
    by (cases "getTodosFromFile w")
  with assms obtain n todo where found: "todos_find todos i = Inr (Some (n, todo))"
    by (auto simp: delete_todos_id_def split: sum.splits option.splits)
  then obtain ts where ts: "todos = Arr ts" and f: "find_todo ts i = Inr (Some (n, todo))"
    by (cases todos) auto
  with load loaded_array [of w ts w0] obtain js
    where js: "ts = map JSON_parse js" and holds: "todos_json w = Holds (JArr js)" and w0: "w0 = w"
    by auto
  from find_todo_Some [of js i n todo] f js
  have n: "n < length js" and id: "jprop (js ! n) ''id'' = Some (JStr i)"
    and first: "\<forall>l<n. jprop (js ! l) ''id'' \<noteq> Some (JStr i)"
    by auto
  from assms load found ts
  have "writeFileSync e = Written"
    by (auto simp: delete_todos_id_def split: prod.splits if_splits dest: save_True)
  with assms load found ts js w0
  have "w' = w\<lparr>todos_json := Holds (JArr (map render (take n js @ drop (Suc n) js)))\<rparr>
      \<and> r = todo_deleted"
    by (auto simp: delete_todos_id_def saveTodoToFile_def JSON_stringify_def take_map drop_map)
  with holds n id first show ?thesis by blast
qed

lemma remove_then_lookup:
  assumes "unique_ids (todos_json w)"
      and "delete_todos_id i e w = (Inr r, w')" and "status r = 200"
  shows "r = todo_deleted
       \<and> (\<exists>js n. todos_json w = Holds (JArr js) \<and> n < length js
              \<and> jprop (js ! n) ''id'' = Some (JStr i)
              \<and> todos_json w' = Holds (JArr (map render (take n js @ drop (Suc n) js))))
       \<and> get_todos_id i w' = (Inr todo_not_found, w')"
proof -
  from delete_deleted [OF assms(2,3)] obtain js n
    where holds: "todos_json w = Holds (JArr js)" and n: "n < length js"
      and id: "jprop (js ! n) ''id'' = Some (JStr i)"
      and w': "w' = w\<lparr>todos_json := Holds (JArr (map render (take n js @ drop (Suc n) js)))\<rparr>"
      and r: "r = todo_deleted"
    by blast
  let ?rest = "take n js @ drop (Suc n) js"
  from assms(1) holds have all: "list_all (\<lambda>t. id_of t \<noteq> None) js" and d: "distinct (map id_of js)"
    by (simp_all add: unique_ids_Holds)
  from id have "id_of (js ! n) = Some i" by (simp add: id_of_eq)
  with removed_id_absent [OF d n] have "Some i \<notin> set (map id_of ?rest)" by simp
  with find_todo_absent [OF list_all_remove [OF all]]
  have "find_todo (map JSON_parse (map render ?rest)) i = Inr None" by blast
  then have "get_todos_id i w' = (Inr todo_not_found, w')"
    by (simp add: get_todos_id_def getTodosFromFile_def w')
  with holds n id w' r show ?thesis by auto
qed

lemma delete_a1_deleted:
  "handle delete_a1 disk_works two_stored
     = (Inr \<lparr>status = 200,
             content = Json (JObj (fmap_of_list [(''message'', JStr ''Todo deleted'')]))\<rparr>,
        two_stored\<lparr>todos_json := Holds (JArr [laundry])\<rparr>)"
  by code_simp

text \<open>
  C6, as the specification has it, fails. The file holds two records with the id
  \<^verbatim>\<open>b2\<close>. A delete for \<^verbatim>\<open>b2\<close> is answered 200 with the message \<^verbatim>\<open>Todo deleted\<close>
  and removes the first of them; the get for \<^verbatim>\<open>b2\<close> that follows is answered 200 with
  the second.
\<close>

theorem deleted_id_is_still_found:
  "req_method delete_b2 = DELETE \<and> req_path delete_b2 = Todo ''b2''
   \<and> todos_json twins_stored = Holds (JArr [laundry, laundry_again])
   \<and> handle delete_b2 disk_works twins_stored
       = (Inr \<lparr>status = 200,
               content = Json (JObj (fmap_of_list [(''message'', JStr ''Todo deleted'')]))\<rparr>,
          twins_stored\<lparr>todos_json := Holds (JArr [laundry_again])\<rparr>)
   \<and> req_method get_b2 = GET \<and> req_path get_b2 = Todo ''b2''
   \<and> handle get_b2 disk_works (twins_stored\<lparr>todos_json := Holds (JArr [laundry_again])\<rparr>)
       = (Inr \<lparr>status = 200, content = Json laundry_again\<rparr>,
          twins_stored\<lparr>todos_json := Holds (JArr [laundry_again])\<rparr>)"
proof -
  have "req_method delete_b2 = DELETE" "req_path delete_b2 = Todo ''b2''"
    by (simp_all add: delete_b2_def)
  moreover have "todos_json twins_stored = Holds (JArr [laundry, laundry_again])"
    by (simp add: twins_stored_def)
  moreover have "handle delete_b2 disk_works twins_stored
       = (Inr \<lparr>status = 200,
               content = Json (JObj (fmap_of_list [(''message'', JStr ''Todo deleted'')]))\<rparr>,
          twins_stored\<lparr>todos_json := Holds (JArr [laundry_again])\<rparr>)"
    by code_simp
  moreover have "req_method get_b2 = GET" "req_path get_b2 = Todo ''b2''"
    by (simp_all add: get_b2_def)
  moreover have "handle get_b2 disk_works
                   (twins_stored\<lparr>todos_json := Holds (JArr [laundry_again])\<rparr>)
       = (Inr \<lparr>status = 200, content = Json laundry_again\<rparr>,
          twins_stored\<lparr>todos_json := Holds (JArr [laundry_again])\<rparr>)"
    by code_simp
  ultimately show ?thesis by (intro conjI)
qed

text \<open>
  C6, amended. In a file whose records have pairwise different ids, a delete that is
  answered 200 (with the message \<^verbatim>\<open>Todo deleted\<close>) found a record with the id of the
  request and left the file holding the array without that record; a get for the same
  id, with a body that \<^verbatim>\<open>express.json()\<close> accepts, is then answered 404 with the
  message \<^verbatim>\<open>Todo not found\<close>.
\<close>

theorem delete_then_get:
  assumes "unique_ids (todos_json w)"
      and "req_method req = DELETE" and "req_path req = Todo i"
      and "handle req e w = (Inr r, w')" and "status r = 200"
      and "req_method g = GET" and "req_path g = Todo i"
      and "express_json (req_body g) = Inr gbody"
  shows "r = \<lparr>status = 200,
              content = Json (JObj (fmap_of_list [(''message'', JStr ''Todo deleted'')]))\<rparr>
       \<and> (\<exists>js n. todos_json w = Holds (JArr js) \<and> n < length js
              \<and> jprop (js ! n) ''id'' = Some (JStr i)
              \<and> todos_json w' = Holds (JArr (map render (take n js @ drop (Suc n) js))))
       \<and> handle g e' w'
           = (Inr \<lparr>status = 404,
                   content = Json (JObj (fmap_of_list
                               [(''message'', JStr ''Todo not found'')]))\<rparr>,
              w')"
proof -
  from assms(4) obtain body where b: "express_json (req_body req) = Inr body"
    using handle_reached [of req e w r] by auto
  from handle_plain [OF _ b, of e w] assms
  have del: "delete_todos_id i e w = (Inr r, w')"
    by (simp add: run_route_def)
  from handle_plain [OF _ assms(8), of e' w'] assms(6,7)
  have "handle g e' w' = get_todos_id i w'"
    by (simp add: run_route_def)
  with remove_then_lookup [OF assms(1) del assms(5)] show ?thesis
    by (simp add: todo_deleted_eq todo_not_found_eq)
qed

theorem delete_then_get_witness:
  "unique_ids (todos_json two_stored)
   \<and> req_method delete_a1 = DELETE \<and> req_path delete_a1 = Todo ''a1''
   \<and> handle delete_a1 disk_works two_stored
       = (Inr \<lparr>status = 200,
               content = Json (JObj (fmap_of_list [(''message'', JStr ''Todo deleted'')]))\<rparr>,
          two_stored\<lparr>todos_json := Holds (JArr [laundry])\<rparr>)
   \<and> req_method get_a1 = GET \<and> req_path get_a1 = Todo ''a1''
   \<and> express_json (req_body get_a1) = Inr (JObj fmempty)
   \<and> handle get_a1 disk_works (two_stored\<lparr>todos_json := Holds (JArr [laundry])\<rparr>)
       = (Inr \<lparr>status = 404,
               content = Json (JObj (fmap_of_list [(''message'', JStr ''Todo not found'')]))\<rparr>,
          two_stored\<lparr>todos_json := Holds (JArr [laundry])\<rparr>)"
proof -
  let ?r = "\<lparr>status = 200,
             content = Json (JObj (fmap_of_list [(''message'', JStr ''Todo deleted'')]))\<rparr>"
  have u: "unique_ids (todos_json two_stored)" by code_simp
  have m: "req_method delete_a1 = DELETE" and p: "req_path delete_a1 = Todo ''a1''"
    by (simp_all add: delete_a1_def)
  have st: "status ?r = 200" by simp
  have gm: "req_method get_a1 = GET" and gp: "req_path get_a1 = Todo ''a1''"
    by (simp_all add: get_a1_def)
  have gb: "express_json (req_body get_a1) = Inr (JObj fmempty)"
    by (simp add: get_a1_def)
  note c = delete_then_get [OF u m p delete_a1_deleted st gm gp gb, of disk_works]
  note g = conjunct2 [OF conjunct2 [OF c]]
  show ?thesis by (rule conjI u m p delete_a1_deleted gm gp gb g)+
qed

subsection \<open>Ids\<close>

lemma unique_ids_no_records [simp]:
  "unique_ids Missing" "unique_ids Unreadable" "unique_ids Unparsable"
  by (simp_all add: unique_ids_def records_def)

text \<open>The file after a request that is not answered with success.\<close>

lemma post_no_success:
  assumes "post_todos body e w = (rep, w')" and "\<forall>r. rep = Inr r \<longrightarrow> status r \<noteq> 201"
  shows "todos_json w' = todos_json w \<or> todos_json w' = Unparsable"
  using assms
  by (cases "writeFileSync e")
     (auto simp: post_todos_def saveTodoToFile_def console_log_def newTodo_JSON_parse
           split: sum.splits prod.splits option.splits if_splits dest: load_file)

lemma put_no_success:
  assumes "put_todos_id i body e w = (rep, w')" and "\<forall>r. rep = Inr r \<longrightarrow> status r \<noteq> 200"
  shows "todos_json w' = todos_json w \<or> todos_json w' = Unparsable"
  using assms
  by (cases "writeFileSync e")
     (auto simp: put_todos_id_def saveTodoToFile_def console_log_def
           split: sum.splits prod.splits option.splits if_splits dest: load_file)

lemma delete_no_success:
  assumes "delete_todos_id i e w = (rep, w')" and "\<forall>r. rep = Inr r \<longrightarrow> status r \<noteq> 200"
  shows "todos_json w' = todos_json w \<or> todos_json w' = Unparsable"
  using assms
  by (cases "writeFileSync e")
     (auto simp: delete_todos_id_def saveTodoToFile_def console_log_def
           split: sum.splits prod.splits option.splits if_splits dest: load_file)


lemma stored_ids_simps [simp]:
  "stored_ids Missing = []" "stored_ids Unreadable = []" "stored_ids Unparsable = []"
  "stored_ids (Holds (JArr js)) = map id_of js"
  by (simp_all add: stored_ids_def records_def)

lemma id_of_comp_render [simp]: "id_of \<circ> render = id_of"
  by (rule ext) simp

lemma unique_ids_rendered:
  "unique_ids (Holds (JArr (map render js))) = unique_ids (Holds (JArr js))"
  by (simp add: unique_ids_Holds list_all_iff)

lemma unique_ids_appended:
  assumes "unique_ids f" and "Some u \<notin> set (stored_ids f)" and "id_of rec = Some u"
  shows "unique_ids (Holds (JArr (map render (records f) @ [rec])))"
    and "stored_ids (Holds (JArr (map render (records f) @ [rec]))) = stored_ids f @ [Some u]"
  using assms by (simp_all add: unique_ids_def stored_ids_def list_all_iff)

lemma unique_ids_replaced:
  assumes "unique_ids (Holds (JArr js))" and "n < length js" and "id_of rec = id_of (js ! n)"
  shows "unique_ids (Holds (JArr (js[n := rec])))"
    and "stored_ids (Holds (JArr (js[n := rec]))) = stored_ids (Holds (JArr js))"
proof -
  from assms(2,3) have same: "map id_of (js[n := rec]) = map id_of js"
    by (simp add: map_update list_update_same_conv)
  from assms(1,2) have "id_of (js ! n) \<noteq> None"
    by (simp add: unique_ids_Holds list_all_length)
  with assms have "list_all (\<lambda>t. id_of t \<noteq> None) (js[n := rec])"
    by (auto simp: unique_ids_Holds list_all_iff dest!: set_update_subset_insert [THEN subsetD])
  with assms(1) same show "unique_ids (Holds (JArr (js[n := rec])))"
    by (simp add: unique_ids_Holds)
  from same show "stored_ids (Holds (JArr (js[n := rec]))) = stored_ids (Holds (JArr js))"
    by simp
qed

lemma distinct_map_remove:
  assumes "distinct (map f xs)"
  shows "distinct (map f (take n xs @ drop (Suc n) xs))"
proof (cases "n < length xs")
  case True
  then have "xs = take n xs @ xs ! n # drop (Suc n) xs"
    by (rule id_take_nth_drop)
  then have "map f xs = map f (take n xs) @ f (xs ! n) # map f (drop (Suc n) xs)"
    by (metis list.simps(9) map_append)
  with assms show ?thesis by auto
next
  case False
  with assms show ?thesis by simp
qed

lemma unique_ids_removed:
  assumes "unique_ids (Holds (JArr js))"
  shows "unique_ids (Holds (JArr (take n js @ drop (Suc n) js)))"
    and "set (stored_ids (Holds (JArr (take n js @ drop (Suc n) js))))
           \<subseteq> set (stored_ids (Holds (JArr js)))"
proof -
  from assms have a: "list_all (\<lambda>t. id_of t \<noteq> None) js" and d: "distinct (map id_of js)"
    by (simp_all only: unique_ids_Holds)
  from list_all_remove [OF a, of n] distinct_map_remove [OF d, of n]
  show "unique_ids (Holds (JArr (take n js @ drop (Suc n) js)))"
    by (simp only: unique_ids_Holds)
  have "set (take n js @ drop (Suc n) js) \<subseteq> set js"
    by (auto dest: in_set_takeD in_set_dropD)
  then show "set (stored_ids (Holds (JArr (take n js @ drop (Suc n) js))))
               \<subseteq> set (stored_ids (Holds (JArr js)))"
    by (simp only: stored_ids_simps set_map image_mono)
qed



text \<open>One request keeps the invariant, when the token of a create is a fresh one.\<close>

lemma post_step:
  assumes u: "unique_ids (todos_json w)"
      and fresh: "Some (uuidV4 e) \<notin> set (stored_ids (todos_json w))"
      and h: "post_todos body e w = (rep, w')"
  shows "unique_ids (todos_json w')
       \<and> set (stored_ids (todos_json w')) \<subseteq> insert (Some (uuidV4 e)) (set (stored_ids (todos_json w)))
       \<and> (\<forall>x. created_id rep = Some x \<longrightarrow> x = uuidV4 e)"
proof (cases "\<exists>r. rep = Inr r \<and> status r = 201")
  case True
  then obtain r where r: "rep = Inr r" "status r = 201" by blast
  with post_created [of body e w r w'] h obtain new
    where new: "newTodo (uuidV4 e) (JSON_parse body) = Inr new"
      and w': "w' = (snd (getTodosFromFile w))
                      \<lparr>todos_json := Holds (JArr (map render (records (todos_json w))
                                                    @ [serialize new]))\<rparr>"
      and rr: "r = res_json 201 (Obj (fmap_of_list [(''id'', Str (uuidV4 e))]))"
    by blast
  from serialize_newTodo(1) [OF new] have id: "id_of (serialize new) = Some (uuidV4 e)"
    by (simp add: id_of_eq)
  from unique_ids_appended [OF u fresh id] w' r rr show ?thesis
    by (auto simp: res_json_def JSON_stringify_def fmlookup_of_list)
next
  case False
  with post_no_success [OF h] have "todos_json w' = todos_json w \<or> todos_json w' = Unparsable"
    by blast
  moreover from False have "created_id rep = None"
    by (cases rep) auto
  ultimately show ?thesis using u by auto
qed

lemma put_step:
  assumes u: "unique_ids (todos_json w)" and h: "put_todos_id i body e w = (rep, w')"
  shows "unique_ids (todos_json w')
       \<and> set (stored_ids (todos_json w')) \<subseteq> set (stored_ids (todos_json w))
       \<and> created_id rep = None"
proof (cases "\<exists>r. rep = Inr r \<and> status r = 200")
  case True
  then obtain r where r: "rep = Inr r" "status r = 200" by blast
  with put_updated [of i body e w r w'] h obtain js n m todo'
    where holds: "todos_json w = Holds (JArr js)" and n: "n < length js"
      and m: "js ! n = JObj m"
      and todo': "assign_todo (JSON_parse (JObj m)) (JSON_parse body) = Inr todo'"
      and w': "w' = w\<lparr>todos_json := Holds (JArr ((map render js)[n := serialize todo']))\<rparr>"
    by blast
  from updated_fields(4) [OF todo', of "''id''"] m
  have "id_of (serialize todo') = id_of (render (js ! n))"
    by (intro id_of_cong) simp
  with n have same: "id_of (serialize todo') = id_of (map render js ! n)"
    by simp
  from u holds have ur: "unique_ids (Holds (JArr (map render js)))"
    by (simp only: unique_ids_rendered)
  from n have nr: "n < length (map render js)" by simp
  from unique_ids_replaced [OF ur nr same] holds w' r show ?thesis
    by (auto simp del: map_map)
next
  case False
  with put_no_success [OF h] have "todos_json w' = todos_json w \<or> todos_json w' = Unparsable"
    by blast
  moreover from h have "created_id rep = None"
    using put_status [of i body e w] by (cases rep) auto
  ultimately show ?thesis using u by auto
qed

lemma delete_step:
  assumes u: "unique_ids (todos_json w)" and h: "delete_todos_id i e w = (rep, w')"
  shows "unique_ids (todos_json w')
       \<and> set (stored_ids (todos_json w')) \<subseteq> set (stored_ids (todos_json w))
       \<and> created_id rep = None"
proof (cases "\<exists>r. rep = Inr r \<and> status r = 200")
  case True
  then obtain r where r: "rep = Inr r" "status r = 200" by blast
  with delete_deleted [of i e w r w'] h obtain js n
    where holds: "todos_json w = Holds (JArr js)"
      and w': "w' = w\<lparr>todos_json := Holds (JArr (map render (take n js @ drop (Suc n) js)))\<rparr>"
    by blast
  from unique_ids_removed [of js n] u holds w' r show ?thesis
    by (auto simp: unique_ids_rendered simp del: map_map map_append)
next
  case False
  with delete_no_success [OF h] have "todos_json w' = todos_json w \<or> todos_json w' = Unparsable"
    by blast
  moreover from h have "created_id rep = None"
    using delete_status [of i e w] by (cases rep) auto
  ultimately show ?thesis using u by auto
qed

lemma get_step:
  "todos_json (snd (get_todos w)) = todos_json w \<and> created_id (fst (get_todos w)) = None"
  "todos_json (snd (get_todos_id i w)) = todos_json w \<and> created_id (fst (get_todos_id i w)) = None"
  "todos_json (snd (all_other w)) = todos_json w \<and> created_id (fst (all_other w)) = None"
  by (auto simp: get_todos_def get_todos_id_def all_other_def res_send_def
           split: prod.splits sum.splits option.splits dest: load_file)

lemma created_id_wire: "created_id (on_the_wire m rep) = Some x \<Longrightarrow> created_id rep = Some x"
  by (cases m; cases rep) (auto split: if_splits)

lemma route_step:
  assumes u: "unique_ids (todos_json w)"
      and fresh: "op = CreateTodo \<longrightarrow> Some (uuidV4 e) \<notin> set (stored_ids (todos_json w))"
  shows "unique_ids (todos_json (snd (run_route op body e w)))
      \<and> set (stored_ids (todos_json (snd (run_route op body e w))))
           \<subseteq> set (stored_ids (todos_json w)) \<union> (if op = CreateTodo then {Some (uuidV4 e)} else {})
      \<and> (\<forall>x. created_id (fst (run_route op body e w)) = Some x
             \<longrightarrow> op = CreateTodo \<and> x = uuidV4 e)"
proof (cases op)
  case CreateTodo
  with fresh post_step [OF u, of e body "fst (post_todos body e w)" "snd (post_todos body e w)"]
  show ?thesis by (simp add: run_route_def)
next
  case (UpdateTodo i)
  with put_step [OF u, of i body e "fst (put_todos_id i body e w)"
                     "snd (put_todos_id i body e w)"]
  show ?thesis by (auto simp: run_route_def)
next
  case (DeleteTodo i)
  with delete_step [OF u, of i e "fst (delete_todos_id i e w)" "snd (delete_todos_id i e w)"]
  show ?thesis by (auto simp: run_route_def)
next
  case ListTodos
  with u get_step(1) [of w] show ?thesis by (auto simp: run_route_def)
next
  case (GetTodo i)
  with u get_step(2) [of i w] show ?thesis by (auto simp: run_route_def)
next
  case NoRoute
  with u get_step(3) [of w] show ?thesis by (auto simp: run_route_def)
qed

lemma handle_step:
  assumes u: "unique_ids (todos_json w)"
      and fresh: "is_create req \<longrightarrow> Some (uuidV4 e) \<notin> set (stored_ids (todos_json w))"
  shows "unique_ids (todos_json (snd (handle req e w)))"
    and "set (stored_ids (todos_json (snd (handle req e w))))
           \<subseteq> set (stored_ids (todos_json w)) \<union> (if is_create req then {Some (uuidV4 e)} else {})"
    and "created_id (fst (handle req e w)) = Some x \<Longrightarrow> is_create req \<and> x = uuidV4 e"
proof -
  have "unique_ids (todos_json (snd (handle req e w)))
      \<and> set (stored_ids (todos_json (snd (handle req e w))))
           \<subseteq> set (stored_ids (todos_json w)) \<union> (if is_create req then {Some (uuidV4 e)} else {})
      \<and> (\<forall>x. created_id (fst (handle req e w)) = Some x \<longrightarrow> is_create req \<and> x = uuidV4 e)"
  proof (cases "express_json (req_body req)")
    case (Inl err)
    with u show ?thesis by (simp add: handle_def)
  next
    case (Inr body)
    show ?thesis
    proof (cases "req_path req = Undecodable")
      case True
      with Inr u show ?thesis by (simp add: handle_def)
    next
      case False
      let ?op = "route (req_method req) (req_path req)"
      from Inr have c: "is_create req = (?op = CreateTodo)"
        by (simp add: is_create_def)
      with fresh have "?op = CreateTodo \<longrightarrow> Some (uuidV4 e) \<notin> set (stored_ids (todos_json w))"
        by simp
      from route_step [OF u this, of body] handle_routed [OF Inr False, of e w] c
      show ?thesis by (auto dest: created_id_wire)
    qed
  qed
  then show "unique_ids (todos_json (snd (handle req e w)))"
    and "set (stored_ids (todos_json (snd (handle req e w))))
           \<subseteq> set (stored_ids (todos_json w)) \<union> (if is_create req then {Some (uuidV4 e)} else {})"
    and "created_id (fst (handle req e w)) = Some x \<Longrightarrow> is_create req \<and> x = uuidV4 e"
    by blast+
qed

lemma tokens_Cons:
  "tokens ((req, e) # rest) = (if is_create req then [uuidV4 e] else []) @ tokens rest"
  by (simp add: tokens_def)

lemma run_keeps_unique_ids:
  assumes "unique_ids (todos_json w)"
      and "distinct (tokens steps)"
      and "\<forall>u \<in> set (tokens steps). Some u \<notin> set (stored_ids (todos_json w))"
  shows "unique_ids (todos_json (run steps w))
       \<and> distinct (created steps w)
       \<and> set (created steps w) \<subseteq> set (tokens steps)
       \<and> set (stored_ids (todos_json (run steps w)))
            \<subseteq> set (stored_ids (todos_json w)) \<union> Some ` set (tokens steps)"
  using assms
proof (induction steps arbitrary: w)
  case Nil
  then show ?case by (simp add: tokens_def)
next
  case (Cons step rest)
  obtain req e where step: "step = (req, e)" by (cases step)
  let ?w1 = "snd (handle req e w)"
  let ?new = "if is_create req then {Some (uuidV4 e)} else {}"
  from Cons.prems step
  have fresh: "is_create req \<longrightarrow> Some (uuidV4 e) \<notin> set (stored_ids (todos_json w))"
    and d: "distinct (tokens rest)"
    and later: "is_create req \<longrightarrow> uuidV4 e \<notin> set (tokens rest)"
    and old: "\<forall>u \<in> set (tokens rest). Some u \<notin> set (stored_ids (todos_json w))"
    by (auto simp: tokens_Cons split: if_splits)
  note s = handle_step [OF Cons.prems(1) fresh]
  from s(2) old later
  have "\<forall>u \<in> set (tokens rest). Some u \<notin> set (stored_ids (todos_json ?w1))"
    by (auto split: if_splits)
  from Cons.IH [OF s(1) d this]
  have u: "unique_ids (todos_json (run rest ?w1))"
    and dc: "distinct (created rest ?w1)"
    and sub: "set (created rest ?w1) \<subseteq> set (tokens rest)"
    and ids: "set (stored_ids (todos_json (run rest ?w1)))
                \<subseteq> set (stored_ids (todos_json ?w1)) \<union> Some ` set (tokens rest)"
    by blast+
  have cr: "created (step # rest) w
              = (case created_id (fst (handle req e w)) of None \<Rightarrow> [] | Some x \<Rightarrow> [x])
                  @ created rest ?w1"
    by (simp add: step)
  have "distinct (created (step # rest) w) \<and> set (created (step # rest) w) \<subseteq> set (tokens (step # rest))"
  proof (cases "created_id (fst (handle req e w))")
    case None
    with cr dc sub show ?thesis by (auto simp: step tokens_Cons)
  next
    case (Some x)
    with s(3) have "is_create req" and "x = uuidV4 e" by blast+
    with Some cr dc sub later show ?thesis by (auto simp: step tokens_Cons)
  qed
  moreover from ids s(2)
  have "set (stored_ids (todos_json (run (step # rest) w)))
          \<subseteq> set (stored_ids (todos_json w)) \<union> Some ` set (tokens (step # rest))"
    by (auto simp: step tokens_Cons split: if_splits)
  ultimately show ?case using u by (simp add: step)
qed



text \<open>
  C7, as the specification has it, fails. The file holds two records with the id
  \<^verbatim>\<open>b2\<close>. A create is answered 201 and the server writes the list again, with the
  two records and the new one: the persisted list still has two records with the same
  id. The program never compares ids.
\<close>

theorem stored_ids_are_not_checked:
  "todos_json twins_stored = Holds (JArr [laundry, laundry_again])
   \<and> id_of laundry = Some ''b2'' \<and> id_of laundry_again = Some ''b2''
   \<and> created post_at_twins twins_stored = [''a1'']
   \<and> stored_ids (todos_json (run post_at_twins twins_stored))
       = [Some ''b2'', Some ''b2'', Some ''a1'']"
proof -
  have "todos_json twins_stored = Holds (JArr [laundry, laundry_again])"
    by (simp add: twins_stored_def)
  moreover have "id_of laundry = Some ''b2''" "id_of laundry_again = Some ''b2''"
    by (simp_all add: laundry_def laundry_again_def fmlookup_of_list)
  moreover have "created post_at_twins twins_stored = [''a1'']"
    by code_simp
  moreover have "stored_ids (todos_json (run post_at_twins twins_stored))
       = [Some ''b2'', Some ''b2'', Some ''a1'']"
    by code_simp
  ultimately show ?thesis by (intro conjI)
qed

text \<open>
  C7, amended. Take a run that starts with a file whose records have pairwise different
  ids (a missing file is one), and in which \<^verbatim>\<open>uuidV4\<close> is universally unique: the
  tokens it returns to the creates are pairwise different and none is an id already
  stored. Then the records of the file have pairwise different ids after the run,
  whatever was updated or deleted and whichever writes failed; the ids the run handed out
  in its 201 replies are pairwise different; each of them is a token of \<^verbatim>\<open>uuidV4\<close>,
  whatever the body of the create was; and every id in the file was there at the start or
  is such a token.
\<close>

theorem ids_stay_unique:
  assumes "unique_ids (todos_json w)" and "universally_unique steps w"
  shows "unique_ids (todos_json (run steps w))
       \<and> distinct (created steps w)
       \<and> set (created steps w) \<subseteq> set (tokens steps)
       \<and> set (stored_ids (todos_json (run steps w)))
            \<subseteq> set (stored_ids (todos_json w)) \<union> Some ` set (tokens steps)"
proof -
  from assms(2) have d: "distinct (tokens steps)"
    and "\<forall>u \<in> set (tokens steps). Some u \<notin> set (stored_ids (todos_json w))"
    by (auto simp: universally_unique_def)
  from run_keeps_unique_ids [OF assms(1) this] show ?thesis .
qed

theorem ids_stay_unique_witness:
  "unique_ids (todos_json no_file)
   \<and> universally_unique three_steps no_file
   \<and> tokens three_steps = [''a1'', ''b2'']
   \<and> req_body post_with_id = Document post_with_id_body
   \<and> jprop post_with_id_body ''id'' = Some (JStr ''a1'')
   \<and> created three_steps no_file = [''a1'', ''b2'']
   \<and> stored_ids (todos_json (run three_steps no_file)) = [Some ''b2'']
   \<and> unique_ids (todos_json (run three_steps no_file))
   \<and> distinct (created three_steps no_file)
   \<and> set (created three_steps no_file) \<subseteq> set (tokens three_steps)
   \<and> set (stored_ids (todos_json (run three_steps no_file)))
        \<subseteq> set (stored_ids (todos_json no_file)) \<union> Some ` set (tokens three_steps)"
proof -
  have u: "unique_ids (todos_json no_file)" by code_simp
  have t: "tokens three_steps = [''a1'', ''b2'']" by code_simp
  have f: "universally_unique three_steps no_file"
    by (simp add: universally_unique_def t no_file_def stored_ids_def records_def)
  have b: "jprop post_with_id_body ''id'' = Some (JStr ''a1'')"
    by (simp add: post_with_id_body_def fmlookup_of_list)
  have a: "req_body post_with_id = Document post_with_id_body"
    by (simp add: post_with_id_def post_with_id_body_def)
  have c: "created three_steps no_file = [''a1'', ''b2'']" by code_simp
  have r: "stored_ids (todos_json (run three_steps no_file)) = [Some ''b2'']" by code_simp
  note concl = ids_stay_unique [OF u f]
  show ?thesis by (rule conjI u f t a b c r concl)+
qed

end
